theory Spec2Isabelle
  imports Complex_Main "HOL-Library.Sublist" "HOL-Library.Product_Lexorder"
begin

section \<open>Python strings\<close>

text \<open>
  A Python \<open>str\<close> is modelled as a \<open>string\<close>, one \<open>char\<close> per code point, so that
  \<open>length\<close> is Python's \<open>len\<close>. A \<open>char\<close> has eight bits: the texts of the model are
  the texts of code points below 256 (ASCII and Latin-1), and the character classes and
  the lower-casing below are Python's on these code points.
\<close>

definition is_space :: "char \<Rightarrow> bool" where
  \<comment> \<open>\<open>str.isspace\<close>, which \<open>str.strip\<close>, \<open>str.split\<close> and the regex class \<open>\s\<close> share:
      TAB, LF, VT, FF, CR, the separators 0x1C to 0x1F, the space, NEL (0x85) and the
      no-break space (0xA0)\<close>
  "is_space c = (let n = (of_char c :: nat) in
     (9 \<le> n \<and> n \<le> 13) \<or> (28 \<le> n \<and> n \<le> 32) \<or> n = 133 \<or> n = 160)"

definition is_word_char :: "char \<Rightarrow> bool" where
  \<comment> \<open>the regex class \<open>\w\<close>: the underscore and the alphanumeric code points, which
      below 256 are the ASCII letters and digits, 0xAA, 0xB2, 0xB3, 0xB5, 0xB9, 0xBA,
      0xBC to 0xBE, and 0xC0 to 0xFF without 0xD7 and 0xF7\<close>
  "is_word_char c = (let n = (of_char c :: nat) in
     (97 \<le> n \<and> n \<le> 122) \<or> (65 \<le> n \<and> n \<le> 90) \<or> (48 \<le> n \<and> n \<le> 57) \<or> n = 95 \<or>
     n = 170 \<or> n = 178 \<or> n = 179 \<or> n = 181 \<or> n = 185 \<or> n = 186 \<or>
     (188 \<le> n \<and> n \<le> 190) \<or> (192 \<le> n \<and> n \<le> 214) \<or> (216 \<le> n \<and> n \<le> 246) \<or>
     (248 \<le> n \<and> n \<le> 255))"

definition is_id_char :: "char \<Rightarrow> bool" where
  \<comment> \<open>the regex class \<open>[a-zA-Z0-9_-]\<close>\<close>
  "is_id_char c = (let n = (of_char c :: nat) in
     (97 \<le> n \<and> n \<le> 122) \<or> (65 \<le> n \<and> n \<le> 90) \<or> (48 \<le> n \<and> n \<le> 57) \<or> n = 95 \<or> n = 45)"

definition lower_char :: "char \<Rightarrow> char" where
  \<comment> \<open>the capitals below 256 are A to Z and 0xC0 to 0xDE without 0xD7; each has its small
      letter 32 places on\<close>
  "lower_char c = (let n = (of_char c :: nat) in
     if (65 \<le> n \<and> n \<le> 90) \<or> (192 \<le> n \<and> n \<le> 214) \<or> (216 \<le> n \<and> n \<le> 222)
     then char_of (n + 32) else c)"

definition lower :: "string \<Rightarrow> string" where
  \<comment> \<open>\<open>s.lower()\<close>\<close>
  "lower s = map lower_char s"

definition strip :: "string \<Rightarrow> string" where
  \<comment> \<open>\<open>s.strip()\<close>\<close>
  "strip s = rev (dropWhile is_space (rev (dropWhile is_space s)))"

fun contains :: "string \<Rightarrow> string \<Rightarrow> bool" where
  \<comment> \<open>\<open>sub in s\<close>\<close>
  "contains sub [] = (sub = [])"
| "contains sub (c # cs) = (prefix sub (c # cs) \<or> contains sub cs)"

fun join :: "string \<Rightarrow> string list \<Rightarrow> string" where
  \<comment> \<open>\<open>sep.join(parts)\<close>\<close>
  "join sep [] = []"
| "join sep [p] = p"
| "join sep (p # q # ps) = p @ sep @ join sep (q # ps)"

fun runs :: "(char \<Rightarrow> bool) \<Rightarrow> string \<Rightarrow> string \<Rightarrow> string list" where
  \<comment> \<open>the maximal runs of characters satisfying \<open>P\<close>, left to right; \<open>cur\<close> is the run
      being read\<close>
  "runs P cur [] = (if cur = [] then [] else [cur])"
| "runs P cur (c # cs) =
     (if P c then runs P (cur @ [c]) cs
      else if cur = [] then runs P [] cs
      else cur # runs P [] cs)"

definition split :: "string \<Rightarrow> string list" where
  \<comment> \<open>\<open>s.split()\<close>: the maximal runs of characters that are not whitespace\<close>
  "split s = runs (\<lambda>c. \<not> is_space c) [] s"

definition word_runs :: "string \<Rightarrow> string list" where
  \<comment> \<open>the maximal runs of word characters. A match of a pattern \<open>\b...\b\<close> whose
      middle matches word characters only begins and ends at a word boundary, so it is one
      of these runs as a whole.\<close>
  "word_runs s = runs is_word_char [] s"

definition preview :: "nat \<Rightarrow> string \<Rightarrow> string" where
  \<comment> \<open>\<open>text[:n] + '...' if len(text) > n else text\<close>\<close>
  "preview n text = (if length text > n then take n text @ ''...'' else text)"

subsection \<open>The substitutions of \<open>_clean_caption_text\<close>\<close>

fun lazy_close :: "string \<Rightarrow> string \<Rightarrow> nat option" where
  \<comment> \<open>how many characters \<open>.*?\<close> followed by the literal \<open>cl\<close> consumes at the head
      of the text: the lazy star stops at the first place where \<open>cl\<close> follows, and \<open>.\<close>
      does not match a line feed\<close>
  "lazy_close cl [] = (if cl = [] then Some 0 else None)"
| "lazy_close cl (c # cs) =
     (if prefix cl (c # cs) then Some (length cl)
      else if c = CHR 0x0A then None
      else map_option Suc (lazy_close cl cs))"

definition match_at :: "string \<Rightarrow> string \<Rightarrow> string \<Rightarrow> nat option" where
  \<comment> \<open>the length of the match of \<open>op.*?cl\<close> at the head of \<open>s\<close>, for literals \<open>op\<close>, \<open>cl\<close>\<close>
  "match_at op cl s =
     (if prefix op s then map_option (\<lambda>n. length op + n) (lazy_close cl (drop (length op) s))
      else None)"

fun re_sub_delete :: "string \<Rightarrow> string \<Rightarrow> nat \<Rightarrow> string \<Rightarrow> string" where
  \<comment> \<open>\<open>re.sub(op.*?cl, '', s)\<close>: every leftmost, non-overlapping match is deleted;
      \<open>k\<close> counts the characters of the current match that are still to be deleted\<close>
  "re_sub_delete op cl k [] = []"
| "re_sub_delete op cl (Suc k) (c # cs) = re_sub_delete op cl k cs"
| "re_sub_delete op cl 0 (c # cs) =
     (case match_at op cl (c # cs) of
        Some n \<Rightarrow> re_sub_delete op cl (n - 1) cs
      | None \<Rightarrow> c # re_sub_delete op cl 0 cs)"

fun re_sub_spaces :: "bool \<Rightarrow> string \<Rightarrow> string" where
  \<comment> \<open>\<open>re.sub(r'\s+', ' ', s)\<close>: every maximal run of whitespace becomes one space;
      the flag says that the previous character was whitespace\<close>
  "re_sub_spaces in_run [] = []"
| "re_sub_spaces in_run (c # cs) =
     (if is_space c then (if in_run then re_sub_spaces True cs else CHR '' '' # re_sub_spaces True cs)
      else c # re_sub_spaces False cs)"

definition clean_caption_text :: "string \<Rightarrow> string" where
  "clean_caption_text text0 =
     (let text1 = re_sub_delete ''['' '']'' 0 text0;
          text2 = re_sub_delete ''('' '')'' 0 text1;
          text3 = re_sub_delete ''>>'' ''<<'' 0 text2;
          text4 = re_sub_spaces False text3
      in strip text4)"

section \<open>Caption processing (\<open>YouTubeCaptionDownloader\<close>)\<close>

text \<open>
  Offsets and durations are Python integers, as in the scenario of the specification.
  \<open>timedelta(seconds=n)\<close> raises \<open>OverflowError\<close> when the number of days leaves
  \<open>\<plusminus>999999999\<close>; this is the only exception of \<open>_process_transcript\<close>.
\<close>

datatype error = OverflowError | ValueError | KeyError | ZeroDivisionError

fun dec :: "nat \<Rightarrow> string" where
  \<comment> \<open>the decimal digits of a natural number\<close>
  "dec n = (if n < 10 then [char_of (48 + n)] else dec (n div 10) @ [char_of (48 + n mod 10)])"

declare dec.simps [simp del]

definition fmt02d :: "int \<Rightarrow> string" where
  \<comment> \<open>the format \<open>{n:02d}\<close>: at least two characters, padded with zeros, the sign counted\<close>
  "fmt02d n =
     (if n < 0 then CHR ''-'' # dec (nat (- n))
      else if n < 10 then CHR ''0'' # dec (nat n)
      else dec (nat n))"

definition timedelta_ok :: "int \<Rightarrow> bool" where
  "timedelta_ok n = (- 999999999 \<le> n div 86400 \<and> n div 86400 \<le> 999999999)"

definition seconds_to_timestamp :: "int \<Rightarrow> error + string" where
  "seconds_to_timestamp seconds =
     (if \<not> timedelta_ok seconds then Inl OverflowError
      else
        let total_seconds = seconds;
            hours = total_seconds div 3600;
            remainder = total_seconds mod 3600;
            minutes = remainder div 60;
            secs = remainder mod 60
        in Inr (fmt02d hours @ '':'' @ fmt02d minutes @ '':'' @ fmt02d secs))"

record entry =
  entry_start :: "int option"
  entry_duration :: "int option"
  entry_text :: "string option"

record segment =
  seg_start :: int
  seg_duration :: int
  seg_end :: int
  seg_text :: string
  seg_original_text :: string
  seg_timestamp :: string

record statistics =
  total_duration :: int
  total_segments :: nat
  total_words :: "nat option"
  total_characters :: "nat option"
  average_segment_length :: rat
  words_per_minute :: rat
  duration_formatted :: "string option"

record processed =
  full_text :: string
  segments :: "segment list"
  statistics :: statistics

definition get_or :: "'a \<Rightarrow> 'a option \<Rightarrow> 'a" where
  \<comment> \<open>\<open>d.get(key, default)\<close> on a field that may be absent\<close>
  "get_or d v = (case v of None \<Rightarrow> d | Some x \<Rightarrow> x)"

fun make_segments :: "entry list \<Rightarrow> error + segment list" where
  \<comment> \<open>the loop of \<open>_process_transcript\<close> over the entries\<close>
  "make_segments [] = Inr []"
| "make_segments (e # transcript) =
     (let start_time = get_or 0 (entry_start e);
          duration = get_or 0 (entry_duration e);
          text = strip (get_or [] (entry_text e))
      in if text \<noteq> [] then
           (let cleaned_text = clean_caption_text text in
            case seconds_to_timestamp start_time of
              Inl err \<Rightarrow> Inl err
            | Inr ts \<Rightarrow>
                (case make_segments transcript of
                   Inl err \<Rightarrow> Inl err
                 | Inr segs \<Rightarrow>
                     Inr (\<lparr>seg_start = start_time, seg_duration = duration,
                           seg_end = start_time + duration, seg_text = cleaned_text,
                           seg_original_text = text, seg_timestamp = ts\<rparr> # segs)))
         else make_segments transcript)"

definition max_end :: "segment list \<Rightarrow> int" where
  \<comment> \<open>\<open>max([seg['end'] for seg in segments]) if segments else 0\<close>\<close>
  "max_end segs = (case map seg_end segs of [] \<Rightarrow> 0 | x # xs \<Rightarrow> fold max xs x)"

definition process_transcript :: "entry list \<Rightarrow> error + processed" where
  "process_transcript transcript =
     (if transcript = [] then
        Inr \<lparr>full_text = [], segments = [],
             statistics = \<lparr>total_duration = 0, total_segments = 0, total_words = None,
               total_characters = None, average_segment_length = 0, words_per_minute = 0,
               duration_formatted = None\<rparr>\<rparr>
      else
        case make_segments transcript of
          Inl err \<Rightarrow> Inl err
        | Inr segs \<Rightarrow>
            (let text = join '' '' (map seg_text segs);
                 duration = max_end segs;
                 words = (if text \<noteq> [] then length (split text) else 0);
                 wpm = (if duration > 0 then rat_of_nat words / (rat_of_int duration / 60) else 0)
             in case seconds_to_timestamp duration of
                  Inl err \<Rightarrow> Inl err
                | Inr formatted \<Rightarrow>
                    Inr \<lparr>full_text = text, segments = segs,
                         statistics = \<lparr>total_duration = duration,
                           total_segments = length segs,
                           total_words = Some words,
                           total_characters = Some (length text),
                           average_segment_length =
                             (if segs \<noteq> [] then rat_of_nat (length segs) / rat_of_nat (length segs) else 0),
                           words_per_minute = wpm,
                           duration_formatted = Some formatted\<rparr>\<rparr>))"

definition scenario_entries :: "entry list" where
  "scenario_entries =
     [\<lparr>entry_start = Some 0, entry_duration = Some 2, entry_text = Some ''[Music]''\<rparr>,
      \<lparr>entry_start = Some 2, entry_duration = Some 3, entry_text = Some ''hello world''\<rparr>]"

definition entry_raw_text :: "entry \<Rightarrow> string" where
  \<comment> \<open>\<open>entry.get('text', '').strip()\<close>\<close>
  "entry_raw_text e = strip (get_or [] (entry_text e))"

definition entries_in_range :: "entry list \<Rightarrow> bool" where
  \<comment> \<open>every start and every end is a number of seconds that \<open>timedelta\<close> accepts\<close>
  "entries_in_range t =
     list_all (\<lambda>e. timedelta_ok (get_or 0 (entry_start e)) \<and>
                    timedelta_ok (get_or 0 (entry_start e) + get_or 0 (entry_duration e))) t"

definition scenario_processed :: processed where
  \<comment> \<open>what \<open>_process_transcript\<close> returns on the scenario\<close>
  "scenario_processed =
     \<lparr>full_text = '' hello world'',
      segments =
        [\<lparr>seg_start = 0, seg_duration = 2, seg_end = 2, seg_text = [],
          seg_original_text = ''[Music]'', seg_timestamp = ''00:00:00''\<rparr>,
         \<lparr>seg_start = 2, seg_duration = 3, seg_end = 5, seg_text = ''hello world'',
          seg_original_text = ''hello world'', seg_timestamp = ''00:00:02''\<rparr>],
      statistics =
        \<lparr>total_duration = 5, total_segments = 2, total_words = Some 2,
         total_characters = Some 12, average_segment_length = 1, words_per_minute = 24,
         duration_formatted = Some ''00:00:05''\<rparr>\<rparr>"

section \<open>Python lists, sorting and counters\<close>

definition slice_to :: "int \<Rightarrow> 'a list \<Rightarrow> 'a list" where
  \<comment> \<open>\<open>xs[:n]\<close>; a negative \<open>n\<close> counts from the end\<close>
  "slice_to n xs = (if 0 \<le> n then take (nat n) xs else take (length xs - nat (- n)) xs)"

fun insort_desc :: "('a \<Rightarrow> 'k::linorder) \<Rightarrow> 'a \<Rightarrow> 'a list \<Rightarrow> 'a list" where
  "insort_desc key x [] = [x]"
| "insort_desc key x (y # ys) =
     (if key y < key x then x # y # ys else y # insort_desc key x ys)"

definition sort_desc :: "('a \<Rightarrow> 'k::linorder) \<Rightarrow> 'a list \<Rightarrow> 'a list" where
  \<comment> \<open>\<open>sorted(xs, key=key, reverse=True)\<close> and \<open>xs.sort(key=key, reverse=True)\<close>:
      descending and stable, elements with equal keys stay in their order\<close>
  "sort_desc key xs = fold (insort_desc key) xs []"

fun counter_add :: "'a \<Rightarrow> ('a \<times> nat) list \<Rightarrow> ('a \<times> nat) list" where
  \<comment> \<open>\<open>counter[x] += 1\<close> on a \<open>Counter\<close>, which keeps its keys in insertion order\<close>
  "counter_add x [] = [(x, 1)]"
| "counter_add x ((y, n) # rest) =
     (if x = y then (y, n + 1) # rest else (y, n) # counter_add x rest)"

definition counter :: "'a list \<Rightarrow> ('a \<times> nat) list" where
  \<comment> \<open>\<open>Counter(xs)\<close>\<close>
  "counter xs = fold counter_add xs []"

definition most_common :: "int \<Rightarrow> ('a \<times> nat) list \<Rightarrow> ('a \<times> nat) list" where
  \<comment> \<open>\<open>counter.most_common(n)\<close>, that is \<open>heapq.nlargest(n, items, key=count)\<close>: the
      first \<open>n\<close> items of the stable descending sort, and no item when \<open>n \<le> 0\<close>\<close>
  "most_common n cnt = take (nat n) (sort_desc snd cnt)"

fun max_by :: "('a \<Rightarrow> 'k::linorder) \<Rightarrow> 'a \<Rightarrow> 'a list \<Rightarrow> 'a" where
  \<comment> \<open>\<open>max(m, *xs, key=key)\<close>: the first element whose key is maximal\<close>
  "max_by key m [] = m"
| "max_by key m (x # xs) = max_by key (if key m < key x then x else m) xs"

definition float_limit :: rat where
  \<comment> \<open>the least magnitude that rounds beyond the largest float, \<open>2 ^ 1024 - 2 ^ 970\<close>,
      written out\<close>
  "float_limit =
     179769313486231580793728971405303415079934132710037826936173778980444968292764750946649017977587207096330286416692887910946555547851940402630657488671505820681908902000708383676273854845817711531764475730270069855571366959622842914819860834936475292719074168444365510704342711559699508093042880177904174497792"

definition truediv :: "int \<Rightarrow> int \<Rightarrow> error + rat" where
  \<comment> \<open>Python's \<open>a / b\<close> on integers: \<open>ZeroDivisionError\<close> for a zero divisor,
      \<open>OverflowError\<close> for a quotient too large for a float. The value is the exact
      quotient; the rounding to a float is not modelled.\<close>
  "truediv a b =
     (if b = 0 then Inl ZeroDivisionError
      else if float_limit \<le> \<bar>rat_of_int a / rat_of_int b\<bar> then Inl OverflowError
      else Inr (rat_of_int a / rat_of_int b))"

definition bind_err :: "error + 'a \<Rightarrow> ('a \<Rightarrow> error + 'b) \<Rightarrow> error + 'b" where
  \<comment> \<open>an exception ends the computation\<close>
  "bind_err m f = (case m of Inl e \<Rightarrow> Inl e | Inr x \<Rightarrow> f x)"

section \<open>Comment analysis (\<open>CommentAnalyzer\<close> and \<open>analyze_comments.py\<close>)\<close>

text \<open>
  A comment is the dictionary of \<open>_parse_comment\<close>; the record has the fields that the
  analyses read. \<open>published_at\<close> and \<open>is_reply\<close> may be absent (the code reads them
  under a \<open>KeyError\<close> handler and with \<open>get\<close>). Quotients are exact rationals; a
  quotient of integers that is too large for a float raises \<open>OverflowError\<close>.
\<close>

record comment =
  c_author :: string
  c_text :: string
  c_like_count :: int
  c_published_at :: "string option"
  c_is_reply :: "bool option"

subsection \<open>Questions\<close>

definition question_indicators :: "string list" where
  \<comment> \<open>the list of \<open>CommentAnalyzer.find_questions\<close>\<close>
  "question_indicators =
     [''?'', ''how'', ''what'', ''why'', ''when'', ''where'', ''which'', ''can you'', ''could you'']"

definition script_question_indicators :: "string list" where
  \<comment> \<open>the list of \<open>extract_questions\<close> in \<open>analyze_comments.py\<close>\<close>
  "script_question_indicators =
     [''?'', ''how'', ''what'', ''why'', ''when'', ''where'', ''which'', ''can you'']"

definition any_in :: "string list \<Rightarrow> string \<Rightarrow> bool" where
  \<comment> \<open>\<open>any(indicator in text for indicator in indicators)\<close>\<close>
  "any_in indicators text = list_ex (\<lambda>indicator. contains indicator text) indicators"

record question =
  q_text :: string
  q_author :: string
  q_likes :: int
  q_is_reply :: bool

fun collect_questions :: "comment list \<Rightarrow> question list" where
  \<comment> \<open>the loop of \<open>find_questions\<close>\<close>
  "collect_questions [] = []"
| "collect_questions (c # comments) =
     (let text = strip (c_text c);
          text_lower = lower text
      in if contains ''?'' text \<and> any_in question_indicators text_lower then
           \<lparr>q_text = preview 200 text, q_author = c_author c, q_likes = c_like_count c,
            q_is_reply = get_or False (c_is_reply c)\<rparr> # collect_questions comments
         else collect_questions comments)"

definition find_questions :: "int \<Rightarrow> comment list \<Rightarrow> question list" where
  "find_questions top_n comments = slice_to top_n (sort_desc q_likes (collect_questions comments))"

record script_question =
  sq_question :: string
  sq_author :: string
  sq_likes :: int

fun script_collect_questions :: "comment list \<Rightarrow> script_question list" where
  \<comment> \<open>the loop of \<open>extract_questions\<close>\<close>
  "script_collect_questions [] = []"
| "script_collect_questions (c # comments) =
     (let text = strip (c_text c);
          text_lower = lower text
      in if contains ''?'' text \<and> any_in script_question_indicators text_lower then
           \<lparr>sq_question = text, sq_author = c_author c, sq_likes = c_like_count c\<rparr>
             # script_collect_questions comments
         else script_collect_questions comments)"

definition extract_questions :: "comment list \<Rightarrow> script_question list" where
  \<comment> \<open>the list that \<open>extract_questions\<close> returns\<close>
  "extract_questions comments = sort_desc sq_likes (script_collect_questions comments)"

definition extract_questions_printed :: "comment list \<Rightarrow> string list" where
  \<comment> \<open>the question texts that \<open>extract_questions\<close> prints: the first five, each cut
      to 100 characters\<close>
  "extract_questions_printed comments =
     map (\<lambda>q. preview 100 (sq_question q)) (slice_to 5 (extract_questions comments))"

definition scenario_comments :: "comment list" where
  "scenario_comments =
     [\<lparr>c_author = ''ann'', c_text = ''how do I install this?'', c_like_count = 10,
       c_published_at = None, c_is_reply = None\<rparr>,
      \<lparr>c_author = ''bob'', c_text = ''great video!'', c_like_count = 3,
       c_published_at = None, c_is_reply = None\<rparr>]"

definition bare_question :: comment where
  \<comment> \<open>a comment with a question mark and none of the indicator words\<close>
  "bare_question =
     \<lparr>c_author = ''ann'', c_text = ''Really?'', c_like_count = 1,
      c_published_at = None, c_is_reply = None\<rparr>"

definition long_question :: comment where
  \<comment> \<open>a question of 201 characters\<close>
  "long_question =
     \<lparr>c_author = ''ann'', c_text = replicate 201 CHR ''?'', c_like_count = 1,
      c_published_at = None, c_is_reply = None\<rparr>"

definition padded_question :: comment where
  \<comment> \<open>a question with whitespace around it\<close>
  "padded_question =
     \<lparr>c_author = ''ann'', c_text = '' why? '', c_like_count = 1,
      c_published_at = None, c_is_reply = None\<rparr>"

definition word_indicators :: "string list" where
  \<comment> \<open>the indicator words, without the question mark\<close>
  "word_indicators = [''how'', ''what'', ''why'', ''when'', ''where'', ''which'', ''can you'', ''could you'']"

subsection \<open>Basic statistics\<close>

record basic_stats =
  bs_total_comments :: nat
  bs_top_level_comments :: nat
  bs_replies :: nat
  bs_total_likes :: int
  bs_avg_likes :: rat
  bs_avg_comment_length :: rat
  bs_high_engagement_count :: nat
  bs_most_active_authors :: "(string \<times> nat) list"
  bs_reply_ratio :: rat

definition total_likes :: "comment list \<Rightarrow> int" where
  \<comment> \<open>\<open>sum(c['like_count'] for c in comments)\<close>\<close>
  "total_likes comments = sum_list (map c_like_count comments)"

definition top_level_comments :: "comment list \<Rightarrow> comment list" where
  "top_level_comments comments = filter (\<lambda>c. \<not> get_or False (c_is_reply c)) comments"

definition replies :: "comment list \<Rightarrow> comment list" where
  "replies comments = filter (\<lambda>c. get_or False (c_is_reply c)) comments"

definition get_basic_stats :: "comment list \<Rightarrow> error + basic_stats option" where
  \<comment> \<open>\<open>None\<close> is the empty dictionary that the method returns when there are no comments\<close>
  "get_basic_stats comments =
     (if comments = [] then Inr None
      else
        let total_comments = length comments in
        bind_err (truediv (total_likes comments) (int total_comments)) (\<lambda>avg_likes.
        let lengths = map (\<lambda>c. length (c_text c)) comments in
        bind_err (truediv (int (sum_list lengths)) (int (length lengths))) (\<lambda>avg_length.
        let authors = counter (map c_author comments);
            high_engagement = length (filter (\<lambda>c. rat_of_int (c_like_count c) > avg_likes * 2) comments)
        in
        bind_err (if total_comments > 0
                  then truediv (int (length (replies comments))) (int total_comments)
                  else Inr 0) (\<lambda>reply_ratio.
        Inr (Some \<lparr>bs_total_comments = total_comments,
                   bs_top_level_comments = length (top_level_comments comments),
                   bs_replies = length (replies comments),
                   bs_total_likes = total_likes comments,
                   bs_avg_likes = avg_likes,
                   bs_avg_comment_length = avg_length,
                   bs_high_engagement_count = high_engagement,
                   bs_most_active_authors = most_common 5 authors,
                   bs_reply_ratio = reply_ratio\<rparr>)))))"

record script_stats =
  ss_total_comments :: nat
  ss_top_level_comments :: nat
  ss_replies :: nat
  ss_total_likes :: int
  ss_avg_likes :: rat
  ss_top_authors :: "(string \<times> nat) list"

definition basic_statistics :: "comment list \<Rightarrow> error + script_stats" where
  \<comment> \<open>the dictionary that \<open>basic_statistics\<close> of \<open>analyze_comments.py\<close> returns\<close>
  "basic_statistics comments =
     (let total_comments = length comments;
          top_level = top_level_comments comments;
          replies = replies comments
      in
      bind_err (if total_comments > 0
                then truediv (total_likes comments) (int total_comments)
                else Inr 0) (\<lambda>avg_likes.
      let authors = counter (map c_author comments) in
      Inr \<lparr>ss_total_comments = total_comments,
           ss_top_level_comments = length top_level,
           ss_replies = length replies,
           ss_total_likes = total_likes comments,
           ss_avg_likes = avg_likes,
           ss_top_authors = most_common 10 authors\<rparr>))"

definition unliked_comment :: comment where
  "unliked_comment =
     \<lparr>c_author = ''ann'', c_text = ''nice'', c_like_count = 0,
      c_published_at = None, c_is_reply = None\<rparr>"

definition huge_comment :: comment where
  \<comment> \<open>a like count beyond the float range\<close>
  "huge_comment =
     \<lparr>c_author = ''ann'', c_text = ''nice'', c_like_count = 2 ^ 1024,
      c_published_at = None, c_is_reply = None\<rparr>"

subsection \<open>Keywords\<close>

definition stop_words :: "string list" where
  \<comment> \<open>the set of \<open>extract_keywords\<close>\<close>
  "stop_words =
     [''this'', ''that'', ''with'', ''have'', ''will'', ''from'', ''they'', ''been'',
      ''were'', ''said'', ''each'', ''which'', ''their'', ''time'', ''would'', ''there'',
      ''what'', ''when'', ''where'', ''your'', ''just'', ''like'', ''dont'', ''really'',
      ''think'', ''know'', ''good'', ''great'', ''thanks'', ''thank'', ''video'',
      ''youtube'', ''channel'', ''subscribe'', ''comment'', ''comments'']"

definition script_stop_words :: "string list" where
  \<comment> \<open>the set of \<open>sentiment_keywords\<close>\<close>
  "script_stop_words =
     [''this'', ''that'', ''with'', ''have'', ''will'', ''from'', ''they'', ''been'',
      ''were'', ''said'', ''each'', ''which'', ''their'', ''time'', ''would'', ''there'',
      ''what'', ''when'', ''where'', ''will'', ''your'', ''just'', ''like'', ''dont'',
      ''really'', ''think'', ''know'', ''good'', ''great'', ''thanks'', ''thank'',
      ''video'', ''youtube'', ''channel'', ''subscribe'']"

definition all_text :: "comment list \<Rightarrow> string" where
  \<comment> \<open>\<open>' '.join(c['text'].lower() for c in comments)\<close>\<close>
  "all_text comments = join '' '' (map (\<lambda>c. lower (c_text c)) comments)"

definition findall_words :: "nat \<Rightarrow> string \<Rightarrow> string list" where
  \<comment> \<open>\<open>re.findall(r'\b\w{n,}\b', s)\<close>: a match starts at a word boundary, the greedy
      \<open>\w{n,}\<close> reads to the end of the run, where the closing boundary holds; inside a run
      there is no boundary. The matches are the maximal runs of at least \<open>n\<close> word
      characters.\<close>
  "findall_words n s = filter (\<lambda>w. n \<le> length w) (word_runs s)"

definition extract_keywords :: "nat \<Rightarrow> int \<Rightarrow> comment list \<Rightarrow> (string \<times> nat) list" where
  "extract_keywords min_word_length top_n comments =
     (let words = findall_words min_word_length (all_text comments);
          filtered_words = filter (\<lambda>w. w \<notin> set stop_words \<and> length w > min_word_length) words
      in most_common top_n (counter filtered_words))"

definition sentiment_keywords :: "comment list \<Rightarrow> (string \<times> nat) list" where
  \<comment> \<open>the pairs that \<open>sentiment_keywords\<close> of \<open>analyze_comments.py\<close> prints\<close>
  "sentiment_keywords comments =
     (let words = findall_words 4 (all_text comments);
          filtered_words = filter (\<lambda>w. w \<notin> set script_stop_words \<and> length w > 3) words
      in most_common 15 (counter filtered_words))"

definition helm_comment :: comment where
  \<comment> \<open>a comment of one word of four letters\<close>
  "helm_comment =
     \<lparr>c_author = ''ann'', c_text = ''helm'', c_like_count = 1,
      c_published_at = None, c_is_reply = None\<rparr>"

subsection \<open>Audience level\<close>

datatype level = Beginner | Intermediate | Advanced

definition beginner_indicators :: "string list" where
  "beginner_indicators =
     [''beginner'', ''new to'', ''just started'', ''tutorial'', ''how to'', ''basic'', ''simple'']"

definition intermediate_indicators :: "string list" where
  "intermediate_indicators =
     [''implement'', ''production'', ''best practice'', ''experience'', ''recommend'', ''migrate'']"

definition advanced_indicators :: "string list" where
  "advanced_indicators =
     [''architecture'', ''performance'', ''optimize'', ''scale'', ''enterprise'', ''custom'', ''extend'']"

record level_counts =
  beginner :: nat
  intermediate :: nat
  advanced :: nat

record level_percentages =
  pct_beginner :: rat
  pct_intermediate :: rat
  pct_advanced :: rat

definition level_of :: "string \<Rightarrow> level option" where
  \<comment> \<open>the \<open>if\<close>/\<open>elif\<close> chain of the loop, on the lower-cased text\<close>
  "level_of text_lower =
     (if any_in beginner_indicators text_lower then Some Beginner
      else if any_in advanced_indicators text_lower then Some Advanced
      else if any_in intermediate_indicators text_lower then Some Intermediate
      else None)"

fun count_levels :: "comment list \<Rightarrow> level_counts \<Rightarrow> level_counts" where
  \<comment> \<open>the loop of \<open>analyze_audience_level\<close>, with the dictionary \<open>levels\<close> as its state\<close>
  "count_levels [] levels = levels"
| "count_levels (c # comments) levels =
     count_levels comments
       (case level_of (lower (c_text c)) of
          Some Beginner \<Rightarrow> levels\<lparr>beginner := beginner levels + 1\<rparr>
        | Some Advanced \<Rightarrow> levels\<lparr>advanced := advanced levels + 1\<rparr>
        | Some Intermediate \<Rightarrow> levels\<lparr>intermediate := intermediate levels + 1\<rparr>
        | None \<Rightarrow> levels)"

datatype audience =
    No_Comments
  | Unclassified level level_counts
  | Classified level level_percentages nat

definition percentage_of :: "level_percentages \<Rightarrow> level \<Rightarrow> rat" where
  "percentage_of p l =
     (case l of Beginner \<Rightarrow> pct_beginner p | Intermediate \<Rightarrow> pct_intermediate p
      | Advanced \<Rightarrow> pct_advanced p)"

definition analyze_audience_level :: "comment list \<Rightarrow> audience" where
  \<comment> \<open>\<open>No_Comments\<close> is the empty dictionary; \<open>Unclassified\<close> has the keys
      \<open>dominant_level\<close> and \<open>distribution\<close>; \<open>Classified\<close> has \<open>dominant_level\<close>,
      \<open>distribution\<close> and \<open>total_classified\<close>\<close>
  "analyze_audience_level comments =
     (if comments = [] then No_Comments
      else
        let levels = count_levels comments \<lparr>beginner = 0, intermediate = 0, advanced = 0\<rparr>;
            total = beginner levels + intermediate levels + advanced levels
        in if total = 0 then Unclassified Intermediate levels
           else
             let percentages =
                   \<lparr>pct_beginner = rat_of_nat (beginner levels) / rat_of_nat total * 100,
                    pct_intermediate = rat_of_nat (intermediate levels) / rat_of_nat total * 100,
                    pct_advanced = rat_of_nat (advanced levels) / rat_of_nat total * 100\<rparr>;
                 dominant_level = max_by (percentage_of percentages) Beginner [Intermediate, Advanced]
             in Classified dominant_level percentages total)"

definition dominant_level :: "audience \<Rightarrow> level option" where
  \<comment> \<open>\<open>result.get('dominant_level')\<close>\<close>
  "dominant_level a =
     (case a of No_Comments \<Rightarrow> None | Unclassified l _ \<Rightarrow> Some l | Classified l _ _ \<Rightarrow> Some l)"

definition classified_count :: "comment list \<Rightarrow> nat" where
  \<comment> \<open>the number of comments that match an indicator of some tier\<close>
  "classified_count comments = length (filter (\<lambda>c. level_of (lower (c_text c)) \<noteq> None) comments)"

definition level_comments :: "comment list" where
  "level_comments =
     [\<lparr>c_author = ''ann'', c_text = ''A basic tutorial on architecture'', c_like_count = 1,
       c_published_at = None, c_is_reply = None\<rparr>,
      \<lparr>c_author = ''bob'', c_text = ''We run this in production'', c_like_count = 0,
       c_published_at = None, c_is_reply = None\<rparr>,
      \<lparr>c_author = ''cy'', c_text = ''How does it scale?'', c_like_count = 2,
       c_published_at = None, c_is_reply = None\<rparr>]"

subsection \<open>Engagement patterns\<close>

text \<open>
  \<open>datetime.fromisoformat\<close> is a parameter: a function from the text to the hour of the
  parsed time, \<open>None\<close> where the library raises \<open>ValueError\<close>.
\<close>

definition replace_Z :: "string \<Rightarrow> string" where
  \<comment> \<open>\<open>s.replace('Z', '+00:00')\<close>\<close>
  "replace_Z s = concat (map (\<lambda>c. if c = CHR ''Z'' then ''+00:00'' else [c]) s)"

definition published_hour :: "(string \<Rightarrow> nat option) \<Rightarrow> comment \<Rightarrow> error + nat" where
  \<comment> \<open>\<open>datetime.fromisoformat(comment['published_at'].replace('Z', '+00:00')).hour\<close>\<close>
  "published_hour fromisoformat c =
     (case c_published_at c of
        None \<Rightarrow> Inl KeyError
      | Some ts \<Rightarrow>
          (case fromisoformat (replace_Z ts) of None \<Rightarrow> Inl ValueError | Some h \<Rightarrow> Inr h))"

fun hourly_distribution ::
  "(string \<Rightarrow> nat option) \<Rightarrow> comment list \<Rightarrow> (nat \<times> nat) list \<Rightarrow> error + (nat \<times> nat) list" where
  \<comment> \<open>the loop over the comments, with the \<open>Counter\<close> as its state; the handler
      \<open>except (ValueError, KeyError): continue\<close> lets any other exception pass\<close>
  "hourly_distribution fromisoformat [] hours = Inr hours"
| "hourly_distribution fromisoformat (c # comments) hours =
     (case published_hour fromisoformat c of
        Inr h \<Rightarrow> hourly_distribution fromisoformat comments (counter_add h hours)
      | Inl e \<Rightarrow>
          if e = ValueError \<or> e = KeyError then hourly_distribution fromisoformat comments hours
          else Inl e)"

record top_comment =
  tc_author :: string
  tc_likes :: int
  tc_text_preview :: string

record engagement =
  max_likes :: int
  median_likes :: int
  top_comments :: "top_comment list"
  peak_hours :: "(nat \<times> nat) list"

definition analyze_engagement_patterns ::
  "(string \<Rightarrow> nat option) \<Rightarrow> comment list \<Rightarrow> error + engagement option" where
  \<comment> \<open>\<open>None\<close> is the empty dictionary that the method returns when there are no comments\<close>
  "analyze_engagement_patterns fromisoformat comments =
     (if comments = [] then Inr None
      else
        let likes_data = sort_desc id (map c_like_count comments);
            top = slice_to 5 (sort_desc c_like_count comments)
        in
        bind_err (hourly_distribution fromisoformat comments []) (\<lambda>hours.
        Inr (Some \<lparr>max_likes = (case likes_data of [] \<Rightarrow> 0 | x # xs \<Rightarrow> fold max xs x),
                   median_likes = (if likes_data \<noteq> [] then likes_data ! (length likes_data div 2) else 0),
                   top_comments =
                     map (\<lambda>c. \<lparr>tc_author = c_author c, tc_likes = c_like_count c,
                               tc_text_preview = preview 100 (c_text c)\<rparr>) top,
                   peak_hours = (if hours \<noteq> [] then most_common 3 hours else [])\<rparr>)))"

definition engagement_analysis ::
  "(string \<Rightarrow> nat option) \<Rightarrow> comment list \<Rightarrow> error + (nat \<times> nat) list" where
  \<comment> \<open>the peak hours that \<open>engagement_analysis\<close> of \<open>analyze_comments.py\<close> prints\<close>
  "engagement_analysis fromisoformat comments =
     (if comments = [] then Inr []
      else
        bind_err (hourly_distribution fromisoformat comments []) (\<lambda>hourly_comments.
        Inr (if hourly_comments \<noteq> [] then most_common 5 hourly_comments else [])))"

definition hour_of :: "(string \<Rightarrow> nat option) \<Rightarrow> comment \<Rightarrow> nat option" where
  \<comment> \<open>the hour of a comment whose timestamp is present and parses\<close>
  "hour_of fromisoformat c =
     (case c_published_at c of None \<Rightarrow> None | Some ts \<Rightarrow> fromisoformat (replace_Z ts))"

definition toy_fromisoformat :: "string \<Rightarrow> nat option" where
  \<comment> \<open>a parser for the examples: it accepts two timestamps\<close>
  "toy_fromisoformat s =
     (if s = ''2024-01-01T09:30:00+00:00'' then Some 9
      else if s = ''2024-01-01T17:05:00+00:00'' then Some 17
      else None)"

definition timed_comments :: "comment list" where
  "timed_comments =
     [\<lparr>c_author = ''ann'', c_text = ''first'', c_like_count = 1,
       c_published_at = Some ''2024-01-01T09:30:00Z'', c_is_reply = None\<rparr>,
      \<lparr>c_author = ''bob'', c_text = ''second'', c_like_count = 5,
       c_published_at = Some ''yesterday'', c_is_reply = None\<rparr>,
      \<lparr>c_author = ''cy'', c_text = ''third'', c_like_count = 2,
       c_published_at = None, c_is_reply = None\<rparr>,
      \<lparr>c_author = ''dee'', c_text = ''fourth'', c_like_count = 0,
       c_published_at = Some ''2024-01-01T17:05:00Z'', c_is_reply = None\<rparr>]"

subsection \<open>Future topics\<close>

definition container_topics :: "(string \<times> string list) list" where
  "container_topics =
     [(''kubernetes'', [''Kubernetes networking deep dive'', ''K8s security best practices'',
         ''Helm chart optimization'', ''Kubernetes troubleshooting'']),
      (''docker'', [''Docker vs Podman migration guide'', ''Docker security hardening'',
         ''Multi-stage Docker builds'', ''Docker networking explained'']),
      (''podman'', [''Podman rootless containers'', ''Podman pods vs containers'',
         ''Podman systemd integration'', ''Podman desktop vs CLI'']),
      (''security'', [''Container security scanning'', ''Runtime security with Falco'',
         ''Image vulnerability management'', ''Zero-trust containers'']),
      (''networking'', [''Container networking fundamentals'', ''Service mesh with Istio'',
         ''Load balancing containers'', ''CNI plugins comparison'']),
      (''buildah'', [''Buildah vs Docker build'', ''Scriptable container builds'',
         ''Multi-arch builds with Buildah'', ''OCI image creation'']),
      (''skopeo'', [''Image registry management'', ''Container image signing'',
         ''Air-gapped image workflows'', ''Image inspection tools'']),
      (''production'', [''Production container deployment'', ''Container monitoring setup'',
         ''Logging best practices'', ''Auto-scaling containers'']),
      (''performance'', [''Container performance tuning'', ''Resource optimization'',
         ''Memory management in containers'', ''Container benchmarking'']),
      (''orchestration'', [''Container orchestration comparison'', ''Docker Swarm vs Kubernetes'',
         ''Nomad for containers'', ''Container scheduling'']),
      (''monitoring'', [''Prometheus for containers'', ''Grafana dashboards'',
         ''Container metrics collection'', ''Alerting strategies'']),
      (''storage'', [''Container persistent storage'', ''Volume management'',
         ''Storage drivers comparison'', ''Data backup strategies'']),
      (''cicd'', [''Container CI/CD pipelines'', ''GitOps workflows'', ''Automated testing'',
         ''Deployment strategies'']),
      (''compose'', [''Docker Compose advanced features'', ''Multi-environment setups'',
         ''Compose vs Kubernetes'', ''Development workflows''])]"

definition tech_patterns :: "(string \<times> string) list" where
  "tech_patterns =
     [(''ai'', ''AI and Machine Learning in Containers''),
      (''serverless'', ''Serverless Containers with Knative''),
      (''wasm'', ''WebAssembly and Container Runtime''),
      (''edge'', ''Edge Computing with Containers''),
      (''arm'', ''ARM/M1 Container Development''),
      (''windows'', ''Windows Container Development''),
      (''microservices'', ''Microservices Architecture Patterns''),
      (''observability'', ''Container Observability Stack''),
      (''gitops'', ''GitOps Deployment Workflows''),
      (''helm'', ''Advanced Helm Chart Development'')]"

record topic_data =
  td_topic :: string
  td_mentions :: nat
  td_avg_engagement :: rat
  td_suggestions :: "string list"
  td_interest_score :: rat

datatype priority = High | Medium | Emerging

record suggestion =
  sg_title :: string
  sg_based_on_topic :: string
  sg_mentions :: nat
  sg_avg_engagement :: rat
  sg_priority :: priority
  sg_source_question :: "string option"

fun mentioned_topics_of ::
  "comment list \<Rightarrow> (string \<times> string list) list \<Rightarrow> error + topic_data list" where
  \<comment> \<open>the loop over the items of the topic table. \<open>mentions\<close> is
      \<open>len(re.findall(rf'\b{topic}\b', all_text))\<close>: a topic is made of word characters
      and a match has a word boundary on both sides, so a match is a maximal run of word
      characters that equals the topic. \<open>relevant_comments\<close> is
      \<open>[c for c in comments if topic in c['text'].lower()]\<close>.\<close>
  "mentioned_topics_of comments [] = Inr []"
| "mentioned_topics_of comments ((topic, suggestions) # table) =
     (let mentions = length (filter (\<lambda>w. w = topic) (word_runs (all_text comments))) in
      if mentions > 0 then
        (let relevant_comments = filter (\<lambda>c. contains topic (lower (c_text c))) comments in
         case (if relevant_comments \<noteq> []
               then truediv (total_likes relevant_comments) (int (length relevant_comments))
               else Inr 0) of
           Inl err \<Rightarrow> Inl err
         | Inr avg_engagement \<Rightarrow>
             (case mentioned_topics_of comments table of
                Inl err \<Rightarrow> Inl err
              | Inr topics \<Rightarrow>
                  Inr (\<lparr>td_topic = topic, td_mentions = mentions,
                        td_avg_engagement = avg_engagement, td_suggestions = suggestions,
                        td_interest_score = rat_of_nat mentions * (1 + avg_engagement)\<rparr>
                       # topics)))
      else mentioned_topics_of comments table)"

definition mentioned_topics :: "comment list \<Rightarrow> error + topic_data list" where
  \<comment> \<open>\<open>mentioned_topics\<close> before it is sorted\<close>
  "mentioned_topics comments = mentioned_topics_of comments container_topics"

definition mentions_of :: "string \<Rightarrow> comment list \<Rightarrow> nat" where
  \<comment> \<open>for the proofs: the number of maximal runs of word characters in the joined
      lower-cased texts that are the topic\<close>
  "mentions_of topic comments = length (filter (\<lambda>w. w = topic) (word_runs (all_text comments)))"

definition mentioning :: "string \<Rightarrow> comment list \<Rightarrow> comment list" where
  \<comment> \<open>for the proofs: the comments whose lower-cased text has the topic as a contiguous
      part, in the words of the list library\<close>
  "mentioning topic comments = filter (\<lambda>c. sublist topic (lower (c_text c))) comments"

definition topic_entry :: "comment list \<Rightarrow> string \<Rightarrow> string list \<Rightarrow> topic_data" where
  \<comment> \<open>for the proofs: the entry that the loop appends for a mentioned topic, with the
      mean taken over the comments that contain it\<close>
  "topic_entry comments topic titles =
     \<lparr>td_topic = topic, td_mentions = mentions_of topic comments,
      td_avg_engagement =
        rat_of_int (sum_list (map c_like_count (mentioning topic comments))) /
        rat_of_nat (length (mentioning topic comments)),
      td_suggestions = titles,
      td_interest_score = rat_of_nat (mentions_of topic comments) *
        (1 + rat_of_int (sum_list (map c_like_count (mentioning topic comments))) /
             rat_of_nat (length (mentioning topic comments)))\<rparr>"

definition likes_in_float_range :: "comment list \<Rightarrow> bool" where
  \<comment> \<open>every like count is smaller in magnitude than the float limit\<close>
  "likes_in_float_range comments =
     list_all (\<lambda>c. \<bar>rat_of_int (c_like_count c)\<bar> < float_limit) comments"

definition topic_suggestions :: "topic_data \<Rightarrow> suggestion list" where
  \<comment> \<open>the inner loop: the first two suggestions of a topic\<close>
  "topic_suggestions topic_data =
     map (\<lambda>title.
            \<lparr>sg_title = title, sg_based_on_topic = td_topic topic_data,
             sg_mentions = td_mentions topic_data,
             sg_avg_engagement = td_avg_engagement topic_data,
             sg_priority = (if td_interest_score topic_data > 10 then High else Medium),
             sg_source_question = None\<rparr>)
         (slice_to 2 (td_suggestions topic_data))"

definition video_suggestions :: "int \<Rightarrow> topic_data list \<Rightarrow> suggestion list" where
  \<comment> \<open>the suggestions of the top half of the sorted topics\<close>
  "video_suggestions top_n topics =
     concat (map topic_suggestions
       (slice_to (top_n div 2) (sort_desc td_interest_score topics)))"

definition question_topics :: "suggestion list \<Rightarrow> question \<Rightarrow> suggestion list" where
  \<comment> \<open>the inner loop over \<open>tech_patterns\<close> for one question\<close>
  "question_topics suggestions q =
     (let text_lower = lower (q_text q) in
      List.map_filter
        (\<lambda>(tech, topic_title).
           if contains tech text_lower \<and> topic_title \<notin> set (map sg_title suggestions) then
             Some \<lparr>sg_title = topic_title, sg_based_on_topic = tech, sg_mentions = 1,
                   sg_avg_engagement = rat_of_int (q_likes q), sg_priority = Emerging,
                   sg_source_question = Some (take 100 (q_text q) @ ''...'')\<rparr>
           else None)
        tech_patterns)"

definition suggest_future_topics :: "int \<Rightarrow> comment list \<Rightarrow> error + suggestion list" where
  "suggest_future_topics top_n comments =
     bind_err (mentioned_topics comments) (\<lambda>topics.
       let suggestions = video_suggestions top_n topics;
           questions = find_questions 20 comments;
           emerging_topics = concat (map (question_topics suggestions) questions);
           all_suggestions = suggestions @ emerging_topics
       in Inr (slice_to top_n
                 (sort_desc (\<lambda>x. (sg_priority x = High, sg_priority x = Emerging, sg_avg_engagement x))
                    all_suggestions)))"

definition docker_comments :: "comment list" where
  \<comment> \<open>five mentions of docker, with a mean like count of 4, and a comment on something
      else with 100 likes\<close>
  "docker_comments =
     [\<lparr>c_author = ''zed'', c_text = ''nice editing'', c_like_count = 100,
       c_published_at = None, c_is_reply = None\<rparr>,
      \<lparr>c_author = ''ann'', c_text = ''Docker is great'', c_like_count = 0,
       c_published_at = None, c_is_reply = None\<rparr>,
      \<lparr>c_author = ''bob'', c_text = ''I moved from docker'', c_like_count = 2,
       c_published_at = None, c_is_reply = None\<rparr>,
      \<lparr>c_author = ''cy'', c_text = ''more docker please'', c_like_count = 4,
       c_published_at = None, c_is_reply = None\<rparr>,
      \<lparr>c_author = ''dee'', c_text = ''docker, always'', c_like_count = 6,
       c_published_at = None, c_is_reply = None\<rparr>,
      \<lparr>c_author = ''eve'', c_text = ''DOCKER!'', c_like_count = 8,
       c_published_at = None, c_is_reply = None\<rparr>]"

definition docker_topic :: topic_data where
  "docker_topic =
     \<lparr>td_topic = ''docker'', td_mentions = 5, td_avg_engagement = 4,
      td_suggestions = [''Docker vs Podman migration guide'', ''Docker security hardening'',
        ''Multi-stage Docker builds'', ''Docker networking explained''],
      td_interest_score = 25\<rparr>"

definition docker_suggestions :: "suggestion list" where
  "docker_suggestions =
     [\<lparr>sg_title = ''Docker vs Podman migration guide'', sg_based_on_topic = ''docker'',
       sg_mentions = 5, sg_avg_engagement = 4, sg_priority = High, sg_source_question = None\<rparr>,
      \<lparr>sg_title = ''Docker security hardening'', sg_based_on_topic = ''docker'',
       sg_mentions = 5, sg_avg_engagement = 4, sg_priority = High, sg_source_question = None\<rparr>]"

section \<open>Video ids (\<open>extract_video_id\<close>)\<close>

text \<open>
  \<open>urlparse\<close> and \<open>parse_qs\<close> are a parameter \<open>query_v\<close>: the first value of the
  parameter \<open>v\<close> in the query of the URL, \<open>Inr None\<close> when the query has no such
  parameter, and \<open>Inl\<close> the exception when the library raises.
\<close>

definition is_video_id :: "string \<Rightarrow> bool" where
  \<comment> \<open>\<open>re.match(r'^[a-zA-Z0-9_-]{11}$', s)\<close>; \<open>$\<close> also matches before a final line feed\<close>
  "is_video_id s =
     ((length s = 11 \<and> list_all is_id_char s) \<or>
      (length s = 12 \<and> list_all is_id_char (take 11 s) \<and> s ! 11 = CHR 0x0A))"

fun match_group :: "string list \<Rightarrow> string \<Rightarrow> string option" where
  \<comment> \<open>a match of \<open>(?:p1|p2|...)([a-zA-Z0-9_-]{11})\<close> at the head of \<open>s\<close>, the literal
      alternatives tried in their order: the group\<close>
  "match_group [] s = None"
| "match_group (p # ps) s =
     (let found = take 11 (drop (length p) s) in
      if prefix p s \<and> length found = 11 \<and> list_all is_id_char found then Some found
      else match_group ps s)"

fun re_search :: "string list \<Rightarrow> string \<Rightarrow> string option" where
  \<comment> \<open>\<open>re.search(pattern, s)\<close>: the match at the leftmost position that has one\<close>
  "re_search ps [] = match_group ps []"
| "re_search ps (c # cs) =
     (case match_group ps (c # cs) of Some found \<Rightarrow> Some found | None \<Rightarrow> re_search ps cs)"

fun search_patterns :: "string list list \<Rightarrow> string \<Rightarrow> string option" where
  \<comment> \<open>\<open>for pattern in patterns: match = re.search(pattern, url); if match: return match.group(1)\<close>\<close>
  "search_patterns [] url = None"
| "search_patterns (pattern # patterns) url =
     (case re_search pattern url of Some found \<Rightarrow> Some found | None \<Rightarrow> search_patterns patterns url)"

definition scraper_patterns :: "string list list" where
  \<comment> \<open>\<open>patterns\<close> in \<open>YouTubeCommentScraper.extract_video_id\<close>\<close>
  "scraper_patterns =
     [[''youtube.com/watch?v='', ''youtu.be/'', ''youtube.com/embed/''], [''youtube.com/v/'']]"

definition scraper_extract_video_id ::
  "(string \<Rightarrow> error + string option) \<Rightarrow> string \<Rightarrow> error + string" where
  \<comment> \<open>\<open>YouTubeCommentScraper.extract_video_id\<close>\<close>
  "scraper_extract_video_id query_v url =
     (if is_video_id url then Inr url
      else
        case search_patterns scraper_patterns url of
          Some found \<Rightarrow> Inr found
        | None \<Rightarrow>
            (case query_v url of
               Inr (Some video_id) \<Rightarrow> if is_video_id video_id then Inr video_id else Inl ValueError
             | Inr None \<Rightarrow> Inl ValueError
             | Inl e \<Rightarrow> Inl ValueError))"

definition caption_patterns :: "string list list" where
  \<comment> \<open>\<open>patterns\<close> in \<open>YouTubeCaptionDownloader.extract_video_id\<close>\<close>
  "caption_patterns =
     [[''youtube.com/watch?v='', ''youtu.be/'', ''youtube.com/embed/''], [''youtube.com/v/'']]"

definition caption_extract_video_id ::
  "(string \<Rightarrow> error + string option) \<Rightarrow> string \<Rightarrow> error + string" where
  \<comment> \<open>\<open>YouTubeCaptionDownloader.extract_video_id\<close>\<close>
  "caption_extract_video_id query_v url =
     (if is_video_id url then Inr url
      else
        case search_patterns caption_patterns url of
          Some found \<Rightarrow> Inr found
        | None \<Rightarrow>
            (case query_v url of
               Inr (Some video_id) \<Rightarrow> if is_video_id video_id then Inr video_id else Inl ValueError
             | Inr None \<Rightarrow> Inl ValueError
             | Inl e \<Rightarrow> Inl ValueError))"

definition no_query :: "string \<Rightarrow> error + string option" where
  \<comment> \<open>for the examples: a URL without a parameter \<open>v\<close>\<close>
  "no_query url = Inr None"

section \<open>Verified properties\<close>

subsection \<open>Caption processing\<close>

lemma process_scenario: "process_transcript scenario_entries = Inr scenario_processed"
  by code_simp

lemma make_segments_texts:
  "make_segments t = Inr segs \<Longrightarrow>
     map seg_original_text segs = filter (\<lambda>s. s \<noteq> []) (map entry_raw_text t) \<and>
     map seg_text segs = map clean_caption_text (filter (\<lambda>s. s \<noteq> []) (map entry_raw_text t))"
proof (induction t arbitrary: segs)
  case Nil
  then show ?case by simp
next
  case (Cons e t)
  show ?case
  proof (cases "entry_raw_text e = []")
    case True
    with Cons show ?thesis by (simp add: entry_raw_text_def)
  next
    case False
    with Cons.prems obtain ts rest where
      "seconds_to_timestamp (get_or 0 (entry_start e)) = Inr ts"
      "make_segments t = Inr rest"
      "segs = \<lparr>seg_start = get_or 0 (entry_start e), seg_duration = get_or 0 (entry_duration e),
               seg_end = get_or 0 (entry_start e) + get_or 0 (entry_duration e),
               seg_text = clean_caption_text (entry_raw_text e),
               seg_original_text = entry_raw_text e, seg_timestamp = ts\<rparr> # rest"
      by (auto simp: entry_raw_text_def Let_def split: sum.splits)
    with Cons.IH [of rest] False show ?thesis by simp
  qed
qed

lemma process_transcript_segs:
  "process_transcript t = Inr r \<Longrightarrow> make_segments t = Inr (segments r)"
  by (auto simp: process_transcript_def Let_def split: if_splits sum.splits)

lemma fold_max_in: "fold max xs (x::int) \<in> set (x # xs)"
proof (induction xs arbitrary: x)
  case Nil
  show ?case by simp
next
  case (Cons y ys)
  have "fold max ys (max y x) \<in> set (max y x # ys)" by (rule Cons.IH)
  moreover have "max y x = y \<or> max y x = x" by linarith
  ultimately show ?case by auto
qed

lemma make_segments_returns:
  "entries_in_range t \<Longrightarrow>
     \<exists>segs. make_segments t = Inr segs \<and> list_all (\<lambda>s. timedelta_ok (seg_end s)) segs"
proof (induction t)
  case Nil
  show ?case by simp
next
  case (Cons e t)
  then obtain segs where s: "make_segments t = Inr segs" "list_all (\<lambda>s. timedelta_ok (seg_end s)) segs"
    by (auto simp: entries_in_range_def)
  from Cons.prems have ok: "timedelta_ok (get_or 0 (entry_start e))"
    "timedelta_ok (get_or 0 (entry_start e) + get_or 0 (entry_duration e))"
    by (simp_all add: entries_in_range_def)
  show ?case using s ok
    by (simp add: Let_def seconds_to_timestamp_def)
qed

lemma max_end_ok:
  "list_all (\<lambda>s. timedelta_ok (seg_end s)) segs \<Longrightarrow> timedelta_ok (max_end segs)"
proof (cases segs)
  case Nil
  then show ?thesis by (simp add: max_end_def timedelta_ok_def)
next
  case (Cons s ss)
  assume a: "list_all (\<lambda>s. timedelta_ok (seg_end s)) segs"
  have "fold max (map seg_end ss) (seg_end s) \<in> set (seg_end s # map seg_end ss)"
    by (rule fold_max_in)
  then have "max_end segs \<in> seg_end ` set segs" using Cons by (simp add: max_end_def)
  with a show ?thesis by (auto simp: list_all_iff)
qed

lemma process_transcript_returns:
  "entries_in_range t \<Longrightarrow> \<exists>r. process_transcript t = Inr r"
proof -
  assume a: "entries_in_range t"
  then obtain segs where s: "make_segments t = Inr segs" "list_all (\<lambda>s. timedelta_ok (seg_end s)) segs"
    using make_segments_returns by blast
  then have "timedelta_ok (max_end segs)" by (simp add: max_end_ok)
  with s show ?thesis
    by (simp add: process_transcript_def Let_def seconds_to_timestamp_def)
qed

text \<open>
  C1 (as amended). \<open>_process_transcript\<close> tests the raw text of an entry, stripped of
  surrounding whitespace, before it cleans it: whenever processing returns, there is one
  segment for each entry whose stripped raw text is not empty, in the order of the entries,
  and the segment's text is the cleaned text, which may be empty. Processing returns when
  all offsets are in the range of \<open>timedelta\<close>. On the scenario
  \<open>[{start:0, duration:2, text:"[Music]"}, {start:2, duration:3, text:"hello world"}]\<close>
  it returns two segments, \<open>total_words = 2\<close> and \<open>total_duration = 5\<close>.
\<close>

theorem process_transcript_segments:
  "(process_transcript t = Inr r \<longrightarrow>
      map seg_original_text (segments r) = filter (\<lambda>s. s \<noteq> []) (map entry_raw_text t) \<and>
      map seg_text (segments r) = map clean_caption_text (filter (\<lambda>s. s \<noteq> []) (map entry_raw_text t)))
   \<and> (entries_in_range t \<longrightarrow> (\<exists>r. process_transcript t = Inr r))
   \<and> process_transcript scenario_entries = Inr scenario_processed
   \<and> length (segments scenario_processed) = 2
   \<and> total_words (statistics scenario_processed) = Some 2
   \<and> total_duration (statistics scenario_processed) = 5"
proof -
  have "process_transcript t = Inr r \<longrightarrow>
      map seg_original_text (segments r) = filter (\<lambda>s. s \<noteq> []) (map entry_raw_text t) \<and>
      map seg_text (segments r) = map clean_caption_text (filter (\<lambda>s. s \<noteq> []) (map entry_raw_text t))"
    using make_segments_texts [of t "segments r"] process_transcript_segs [of t r] by blast
  moreover have "entries_in_range t \<longrightarrow> (\<exists>r. process_transcript t = Inr r)"
    using process_transcript_returns by blast
  moreover have "length (segments scenario_processed) = 2"
    "total_words (statistics scenario_processed) = Some 2"
    "total_duration (statistics scenario_processed) = 5"
    by (simp_all add: scenario_processed_def)
  ultimately show ?thesis using process_scenario by blast
qed

lemma scenario_in_range: "entries_in_range scenario_entries"
  by code_simp

theorem process_transcript_segments_witness:
  "process_transcript scenario_entries = Inr scenario_processed \<and>
   map seg_original_text (segments scenario_processed) =
     filter (\<lambda>s. s \<noteq> []) (map entry_raw_text scenario_entries) \<and>
   map seg_text (segments scenario_processed) =
     map clean_caption_text (filter (\<lambda>s. s \<noteq> []) (map entry_raw_text scenario_entries)) \<and>
   entries_in_range scenario_entries \<and>
   (\<exists>r. process_transcript scenario_entries = Inr r)"
  using process_transcript_segments [of scenario_entries scenario_processed] scenario_in_range
  by blast

text \<open>
  C1 as stated fails on the scenario: the entry \<open>"[Music]"\<close> is not dropped. Its raw
  text is not empty, so it yields a segment, whose cleaned text is empty; the result has
  two segments, not one.
\<close>

theorem process_transcript_keeps_empty_cleaned_counterexample:
  "process_transcript scenario_entries = Inr scenario_processed \<and>
   map seg_text (segments scenario_processed) = [[], ''hello world''] \<and>
   length (segments scenario_processed) \<noteq> 1"
  using process_scenario by (simp add: scenario_processed_def)

text \<open>
  C9. Whenever processing returns, the statistics report \<open>average_segment_length = 1\<close>
  if there is at least one segment (the segment count divided by itself), and \<open>0\<close> if
  there is none.
\<close>

theorem average_segment_length_is_one:
  "process_transcript t = Inr r \<Longrightarrow>
     average_segment_length (statistics r) = (if segments r = [] then 0 else 1)"
  by (auto simp: process_transcript_def Let_def split: if_splits sum.splits)

theorem average_segment_length_is_one_witness:
  "process_transcript scenario_entries = Inr scenario_processed \<and>
   segments scenario_processed \<noteq> [] \<and>
   average_segment_length (statistics scenario_processed) = 1"
  using average_segment_length_is_one [OF process_scenario] process_scenario
  by (simp add: scenario_processed_def)

subsection \<open>Sorting and slicing\<close>

lemma set_insort_desc: "set (insort_desc key x ys) = insert x (set ys)"
  by (induction ys) auto

lemma set_fold_insort_desc: "set (fold (insort_desc key) xs acc) = set xs \<union> set acc"
  by (induction xs arbitrary: acc) (auto simp: set_insort_desc)

lemma set_sort_desc: "set (sort_desc key xs) = set xs"
  by (simp add: sort_desc_def set_fold_insort_desc)

lemma set_slice_to: "set (slice_to n xs) \<subseteq> set xs"
  by (auto simp: slice_to_def dest: in_set_takeD)

subsection \<open>Questions\<close>

lemma collect_questions_source:
  "q \<in> set (collect_questions comments) \<Longrightarrow>
     \<exists>c\<in>set comments. q_text q = preview 200 (strip (c_text c)) \<and> q_author q = c_author c \<and>
        q_likes q = c_like_count c"
  by (induction comments) (auto simp: Let_def split: if_splits)

lemma script_collect_questions_source:
  "q \<in> set (script_collect_questions comments) \<Longrightarrow>
     \<exists>c\<in>set comments. sq_question q = strip (c_text c) \<and> sq_author q = c_author c \<and>
        sq_likes q = c_like_count c"
  by (induction comments) (auto simp: Let_def split: if_splits)

lemma find_questions_scenario:
  "find_questions 10 scenario_comments =
     [\<lparr>q_text = ''how do I install this?'', q_author = ''ann'', q_likes = 10, q_is_reply = False\<rparr>]"
  by code_simp

lemma extract_questions_scenario:
  "extract_questions scenario_comments =
     [\<lparr>sq_question = ''how do I install this?'', sq_author = ''ann'', sq_likes = 10\<rparr>]"
  by code_simp

lemma contains_single: "contains [c] s = (c \<in> set s)"
  by (induction s) auto

lemma lower_keeps_question_mark: "contains ''?'' s \<Longrightarrow> contains ''?'' (lower s)"
proof -
  assume "contains ''?'' s"
  then have "CHR ''?'' \<in> set s" by (simp add: contains_single)
  then have "lower_char CHR ''?'' \<in> set (lower s)" by (simp add: lower_def)
  moreover have "lower_char CHR ''?'' = CHR ''?''" by (simp add: lower_char_def)
  ultimately show ?thesis by (simp add: contains_single)
qed

lemma indicator_test_redundant:
  "contains ''?'' text \<Longrightarrow>
     any_in question_indicators (lower text) \<and> any_in script_question_indicators (lower text)"
  using lower_keeps_question_mark [of "text"]
  by (simp add: any_in_def question_indicators_def script_question_indicators_def)

lemma collect_questions_question_marks:
  "collect_questions comments =
     map (\<lambda>c. \<lparr>q_text = preview 200 (strip (c_text c)), q_author = c_author c,
                q_likes = c_like_count c, q_is_reply = get_or False (c_is_reply c)\<rparr>)
       (filter (\<lambda>c. contains ''?'' (strip (c_text c))) comments)"
  by (induction comments) (simp_all add: Let_def indicator_test_redundant)

lemma script_collect_questions_question_marks:
  "script_collect_questions comments =
     map (\<lambda>c. \<lparr>sq_question = strip (c_text c), sq_author = c_author c, sq_likes = c_like_count c\<rparr>)
       (filter (\<lambda>c. contains ''?'' (strip (c_text c))) comments)"
  by (induction comments) (simp_all add: Let_def indicator_test_redundant)

text \<open>
  C2. A question is to have a question mark \<^emph>\<open>and\<close> one of the indicator words how,
  what, why, when, where, which, can you. Both \<open>find_questions\<close> and
  \<open>extract_questions\<close> write this conjunction, but their indicator lists begin with the
  question mark itself, so the second test holds whenever the first does
  (\<open>indicator_test_redundant\<close>), and the questions are the comments with a question mark
  (\<open>collect_questions_question_marks\<close>). The comment \<open>"Really?"\<close> has none of the
  indicator words and is returned as a question by both.
\<close>

theorem question_mark_alone_is_question:
  "find_questions 10 [bare_question] =
     [\<lparr>q_text = ''Really?'', q_author = ''ann'', q_likes = 1, q_is_reply = False\<rparr>] \<and>
   extract_questions [bare_question] =
     [\<lparr>sq_question = ''Really?'', sq_author = ''ann'', sq_likes = 1\<rparr>] \<and>
   c_text bare_question = ''Really?'' \<and>
   any_in word_indicators (lower ''Really?'') = False"
  by code_simp

text \<open>
  C7 (as amended). Every record that \<open>find_questions\<close> returns comes from a comment and
  holds that comment's text stripped of surrounding whitespace and cut for display: the
  stripped text itself when it has at most 200 characters, its first 200 characters followed
  by \<open>...\<close> when it is longer. Every record that \<open>extract_questions\<close> returns holds the
  stripped text of its comment in full; there only the printed copy is cut.
\<close>

theorem stored_question_text:
  "(q \<in> set (find_questions top_n comments) \<longrightarrow>
      (\<exists>c\<in>set comments. q_text q = preview 200 (strip (c_text c)) \<and> q_author q = c_author c \<and>
         q_likes q = c_like_count c)) \<and>
   (q' \<in> set (extract_questions comments) \<longrightarrow>
      (\<exists>c\<in>set comments. sq_question q' = strip (c_text c) \<and> sq_author q' = c_author c \<and>
         sq_likes q' = c_like_count c)) \<and>
   (length s \<le> 200 \<longrightarrow> preview 200 s = s) \<and>
   (length s > 200 \<longrightarrow> preview 200 s = take 200 s @ ''...'') \<and>
   extract_questions_printed comments =
     map (\<lambda>q. preview 100 (sq_question q)) (slice_to 5 (extract_questions comments))"
proof -
  have "q \<in> set (find_questions top_n comments) \<longrightarrow> q \<in> set (collect_questions comments)"
    using set_slice_to [of top_n "sort_desc q_likes (collect_questions comments)"]
    by (auto simp: find_questions_def set_sort_desc)
  moreover have "q' \<in> set (extract_questions comments) \<longrightarrow> q' \<in> set (script_collect_questions comments)"
    by (simp add: extract_questions_def set_sort_desc)
  ultimately show ?thesis
    using collect_questions_source [of q comments] script_collect_questions_source [of q' comments]
    by (auto simp: preview_def extract_questions_printed_def)
qed

theorem stored_question_text_witness:
  "\<lparr>q_text = ''how do I install this?'', q_author = ''ann'', q_likes = 10, q_is_reply = False\<rparr>
      \<in> set (find_questions 10 scenario_comments) \<and>
   (\<exists>c\<in>set scenario_comments.
      q_text \<lparr>q_text = ''how do I install this?'', q_author = ''ann'', q_likes = 10, q_is_reply = False\<rparr>
        = preview 200 (strip (c_text c))) \<and>
   \<lparr>sq_question = ''how do I install this?'', sq_author = ''ann'', sq_likes = 10\<rparr>
      \<in> set (extract_questions scenario_comments) \<and>
   (\<exists>c\<in>set scenario_comments.
      sq_question \<lparr>sq_question = ''how do I install this?'', sq_author = ''ann'', sq_likes = 10\<rparr>
        = strip (c_text c)) \<and>
   length ''how do I install this?'' \<le> 200 \<and>
   preview 200 ''how do I install this?'' = ''how do I install this?'' \<and>
   length (replicate 201 CHR ''?'') > 200 \<and>
   preview 200 (replicate 201 CHR ''?'') = take 200 (replicate 201 CHR ''?'') @ ''...''"
proof -
  let ?q = "\<lparr>q_text = ''how do I install this?'', q_author = ''ann'', q_likes = 10, q_is_reply = False\<rparr>"
  let ?q' = "\<lparr>sq_question = ''how do I install this?'', sq_author = ''ann'', sq_likes = 10\<rparr>"
  have a: "?q \<in> set (find_questions 10 scenario_comments)"
    by (simp add: find_questions_scenario)
  have b: "?q' \<in> set (extract_questions scenario_comments)"
    by (simp add: extract_questions_scenario)
  have c: "length ''how do I install this?'' \<le> 200" by simp
  have d: "length (replicate 201 CHR ''?'') > 200" by simp
  from stored_question_text [of ?q 10 scenario_comments ?q' "''how do I install this?''"]
    stored_question_text [of ?q 10 scenario_comments ?q' "replicate 201 CHR ''?''"] a b c d
  show ?thesis by blast
qed

text \<open>
  C7 as stated fails: \<open>find_questions\<close> stores a question of 201 characters as 200
  characters and an ellipsis, and \<open>extract_questions\<close> stores \<open>" why? "\<close> without the
  surrounding spaces.
\<close>

theorem stored_question_text_counterexample:
  "map q_text (find_questions 10 [long_question]) = [replicate 200 CHR ''?'' @ ''...''] \<and>
   c_text long_question = replicate 201 CHR ''?'' \<and>
   map sq_question (extract_questions [padded_question]) = [''why?''] \<and>
   c_text padded_question = '' why? ''"
  by code_simp

subsection \<open>Basic statistics\<close>

lemma float_limit_power: "float_limit = 2 ^ 1024 - 2 ^ 970"
  by (simp add: float_limit_def)

lemma float_limit_gt_one: "1 < float_limit"
  by (simp add: float_limit_def)

lemma truediv_Inr:
  "b \<noteq> 0 \<Longrightarrow> \<bar>rat_of_int a / rat_of_int b\<bar> < float_limit \<Longrightarrow>
     truediv a b = Inr (rat_of_int a / rat_of_int b)"
  by (simp add: truediv_def)

lemma truediv_Inl:
  "b \<noteq> 0 \<Longrightarrow> \<not> \<bar>rat_of_int a / rat_of_int b\<bar> < float_limit \<Longrightarrow>
     truediv a b = Inl OverflowError"
  by (simp add: truediv_def)

lemma ratio_in_range: "k \<le> n \<Longrightarrow> n \<noteq> 0 \<Longrightarrow> \<bar>rat_of_int (int k) / rat_of_int (int n)\<bar> < float_limit"
proof -
  assume "k \<le> n" "n \<noteq> 0"
  then have "rat_of_int (int k) / rat_of_int (int n) \<le> 1" by simp
  moreover have "0 \<le> rat_of_int (int k) / rat_of_int (int n)" by simp
  ultimately show ?thesis using float_limit_gt_one by linarith
qed

lemma basic_statistics_cases:
  "basic_statistics comments =
     (if comments = [] \<or> \<bar>rat_of_int (total_likes comments) / rat_of_nat (length comments)\<bar> < float_limit
      then Inr \<lparr>ss_total_comments = length comments,
          ss_top_level_comments = length (top_level_comments comments),
          ss_replies = length (replies comments),
          ss_total_likes = total_likes comments,
          ss_avg_likes = (if comments = [] then 0
                          else rat_of_int (total_likes comments) / rat_of_nat (length comments)),
          ss_top_authors = most_common 10 (counter (map c_author comments))\<rparr>
      else Inl OverflowError)"
proof (cases "comments = []")
  case True
  then show ?thesis by (simp add: basic_statistics_def bind_err_def Let_def)
next
  case False
  then have n: "int (length comments) \<noteq> 0" by simp
  show ?thesis
  proof (cases "\<bar>rat_of_int (total_likes comments) / rat_of_int (int (length comments))\<bar> < float_limit")
    case True
    from truediv_Inr [OF n True] False True show ?thesis
      by (simp add: basic_statistics_def bind_err_def Let_def)
  next
    case no: False
    from truediv_Inl [OF n no] False no show ?thesis
      by (simp add: basic_statistics_def bind_err_def Let_def)
  qed
qed

lemma get_basic_stats_cases:
  "comments \<noteq> [] \<Longrightarrow>
   get_basic_stats comments =
     (if \<bar>rat_of_int (total_likes comments) / rat_of_nat (length comments)\<bar> < float_limit \<and>
         rat_of_nat (sum_list (map (\<lambda>c. length (c_text c)) comments)) / rat_of_nat (length comments)
           < float_limit
      then Inr (Some \<lparr>bs_total_comments = length comments,
                   bs_top_level_comments = length (top_level_comments comments),
                   bs_replies = length (replies comments),
                   bs_total_likes = total_likes comments,
                   bs_avg_likes = rat_of_int (total_likes comments) / rat_of_nat (length comments),
                   bs_avg_comment_length =
                     rat_of_nat (sum_list (map (\<lambda>c. length (c_text c)) comments)) /
                     rat_of_nat (length comments),
                   bs_high_engagement_count =
                     length (filter (\<lambda>c. rat_of_int (c_like_count c) >
                        rat_of_int (total_likes comments) / rat_of_nat (length comments) * 2) comments),
                   bs_most_active_authors = most_common 5 (counter (map c_author comments)),
                   bs_reply_ratio = rat_of_nat (length (replies comments)) / rat_of_nat (length comments)\<rparr>)
      else Inl OverflowError)"
proof -
  assume ne: "comments \<noteq> []"
  let ?n = "int (length comments)"
  let ?ls = "int (sum_list (map (\<lambda>c. length (c_text c)) comments))"
  from ne have n: "?n \<noteq> 0" by simp
  have "\<bar>rat_of_int (int (length (replies comments))) / rat_of_int ?n\<bar> < float_limit"
    using ne by (intro ratio_in_range) (simp_all add: replies_def)
  then have rr: "truediv (int (length (replies comments))) ?n =
      Inr (rat_of_int (int (length (replies comments))) / rat_of_int ?n)"
    using n by (intro truediv_Inr)
  have labs: "\<bar>rat_of_int ?ls / rat_of_int ?n\<bar> = rat_of_int ?ls / rat_of_int ?n" by simp
  show ?thesis
  proof (cases "\<bar>rat_of_int (total_likes comments) / rat_of_int ?n\<bar> < float_limit")
    case False
    from truediv_Inl [OF n False] ne False show ?thesis
      by (simp add: get_basic_stats_def bind_err_def Let_def)
  next
    case likes: True
    show ?thesis
    proof (cases "\<bar>rat_of_int ?ls / rat_of_int ?n\<bar> < float_limit")
      case False
      from truediv_Inr [OF n likes] truediv_Inl [OF n False] ne likes False labs show ?thesis
        by (simp add: get_basic_stats_def bind_err_def Let_def)
    next
      case True
      from truediv_Inr [OF n likes] truediv_Inr [OF n True] rr ne likes True labs show ?thesis
        by (simp add: get_basic_stats_def bind_err_def Let_def)
    qed
  qed
qed

lemma sum_nonneg_zero:
  "(\<forall>x\<in>set xs. 0 \<le> (x::int)) \<Longrightarrow> (sum_list xs = 0) = (\<forall>x\<in>set xs. x = 0)"
proof (induction xs)
  case Nil
  show ?case by simp
next
  case (Cons x xs)
  then have "0 \<le> sum_list xs" "0 \<le> x" by (simp_all add: sum_list_nonneg)
  with Cons show ?case by auto
qed

text \<open>
  C3 (as amended). Whenever \<open>basic_statistics\<close> or \<open>get_basic_stats\<close> returns, the mean
  like count it reports is 0 exactly when the total like count is 0: on the empty collection,
  and also on a collection that is not empty and whose likes sum to 0 (for like counts that
  are not negative: every record has 0 likes). On the empty collection neither function
  raises: \<open>basic_statistics\<close> reports zeros and no author, and \<open>get_basic_stats\<close> returns
  the empty dictionary, which it returns on no other collection. On a collection that is not
  empty the functions return unless a mean is too large for a float, where the division
  raises \<open>OverflowError\<close> (\<open>statistics_overflow\<close>).
\<close>

theorem mean_likes_zero_iff:
  "(basic_statistics comments = Inr s \<longrightarrow> (ss_avg_likes s = 0 \<longleftrightarrow> total_likes comments = 0)) \<and>
   (get_basic_stats comments = Inr r \<longrightarrow>
      (r = None \<longleftrightarrow> comments = []) \<and>
      (\<forall>s'. r = Some s' \<longrightarrow> (bs_avg_likes s' = 0 \<longleftrightarrow> total_likes comments = 0))) \<and>
   ((\<exists>s. basic_statistics comments = Inr s) \<longleftrightarrow>
      comments = [] \<or>
      \<bar>rat_of_int (total_likes comments) / rat_of_nat (length comments)\<bar> < float_limit) \<and>
   ((\<exists>r. get_basic_stats comments = Inr r) \<longleftrightarrow>
      comments = [] \<or>
      (\<bar>rat_of_int (total_likes comments) / rat_of_nat (length comments)\<bar> < float_limit \<and>
       rat_of_nat (sum_list (map (\<lambda>c. length (c_text c)) comments)) / rat_of_nat (length comments)
         < float_limit)) \<and>
   ((\<forall>c\<in>set comments. 0 \<le> c_like_count c) \<longrightarrow>
      (total_likes comments = 0 \<longleftrightarrow> (\<forall>c\<in>set comments. c_like_count c = 0))) \<and>
   basic_statistics [] =
     Inr \<lparr>ss_total_comments = 0, ss_top_level_comments = 0, ss_replies = 0, ss_total_likes = 0,
          ss_avg_likes = 0, ss_top_authors = []\<rparr> \<and>
   get_basic_stats [] = Inr None"
proof -
  have a: "basic_statistics comments = Inr s \<longrightarrow> (ss_avg_likes s = 0 \<longleftrightarrow> total_likes comments = 0)"
  proof
    assume h: "basic_statistics comments = Inr s"
    show "ss_avg_likes s = 0 \<longleftrightarrow> total_likes comments = 0"
    proof (cases "comments = []")
      case True
      with h show ?thesis by (auto simp: basic_statistics_cases total_likes_def)
    next
      case False
      with h have "ss_avg_likes s = rat_of_int (total_likes comments) / rat_of_nat (length comments)"
        unfolding basic_statistics_cases by (cases s) (simp split: if_splits)
      with False show ?thesis by simp
    qed
  qed
  have b: "get_basic_stats comments = Inr r \<longrightarrow>
      (r = None \<longleftrightarrow> comments = []) \<and>
      (\<forall>s'. r = Some s' \<longrightarrow> (bs_avg_likes s' = 0 \<longleftrightarrow> total_likes comments = 0))"
  proof
    assume h: "get_basic_stats comments = Inr r"
    show "(r = None \<longleftrightarrow> comments = []) \<and>
      (\<forall>s'. r = Some s' \<longrightarrow> (bs_avg_likes s' = 0 \<longleftrightarrow> total_likes comments = 0))"
    proof (cases "comments = []")
      case True
      with h show ?thesis by (simp add: get_basic_stats_def)
    next
      case False
      from h obtain s0 where r: "r = Some s0"
        "bs_avg_likes s0 = rat_of_int (total_likes comments) / rat_of_nat (length comments)"
        unfolding get_basic_stats_cases [OF False] by (auto split: if_splits)
      with False show ?thesis by simp
    qed
  qed
  have c: "(\<exists>s. basic_statistics comments = Inr s) \<longleftrightarrow>
      comments = [] \<or>
      \<bar>rat_of_int (total_likes comments) / rat_of_nat (length comments)\<bar> < float_limit"
    unfolding basic_statistics_cases by simp
  have d: "(\<exists>r. get_basic_stats comments = Inr r) \<longleftrightarrow>
      comments = [] \<or>
      (\<bar>rat_of_int (total_likes comments) / rat_of_nat (length comments)\<bar> < float_limit \<and>
       rat_of_nat (sum_list (map (\<lambda>c. length (c_text c)) comments)) / rat_of_nat (length comments)
         < float_limit)"
  proof (cases "comments = []")
    case True
    then show ?thesis by (simp add: get_basic_stats_def)
  next
    case False
    then show ?thesis unfolding get_basic_stats_cases [OF False] by simp
  qed
  have e: "(\<forall>c\<in>set comments. 0 \<le> c_like_count c) \<longrightarrow>
      (total_likes comments = 0 \<longleftrightarrow> (\<forall>c\<in>set comments. c_like_count c = 0))"
    using sum_nonneg_zero [of "map c_like_count comments"] by (simp add: total_likes_def)
  have f: "basic_statistics [] =
     Inr \<lparr>ss_total_comments = 0, ss_top_level_comments = 0, ss_replies = 0, ss_total_likes = 0,
          ss_avg_likes = 0, ss_top_authors = []\<rparr>"
    by (simp add: basic_statistics_cases top_level_comments_def replies_def total_likes_def
        most_common_def counter_def sort_desc_def)
  have g: "get_basic_stats [] = Inr None" by (simp add: get_basic_stats_def)
  from a b c d e f g show ?thesis by blast
qed

lemma basic_statistics_unliked:
  "basic_statistics [unliked_comment] =
     Inr \<lparr>ss_total_comments = 1, ss_top_level_comments = 1, ss_replies = 0, ss_total_likes = 0,
          ss_avg_likes = 0, ss_top_authors = [(''ann'', 1)]\<rparr>"
  by code_simp

lemma get_basic_stats_unliked:
  "get_basic_stats [unliked_comment] =
     Inr (Some \<lparr>bs_total_comments = 1, bs_top_level_comments = 1, bs_replies = 0,
       bs_total_likes = 0, bs_avg_likes = 0, bs_avg_comment_length = 4,
       bs_high_engagement_count = 0, bs_most_active_authors = [(''ann'', 1)],
       bs_reply_ratio = 0\<rparr>)"
  by code_simp

lemma statistics_overflow:
  "basic_statistics [huge_comment] = Inl OverflowError \<and>
   get_basic_stats [huge_comment] = Inl OverflowError"
  by code_simp

theorem mean_likes_zero_iff_witness:
  "basic_statistics [unliked_comment] =
     Inr \<lparr>ss_total_comments = 1, ss_top_level_comments = 1, ss_replies = 0, ss_total_likes = 0,
          ss_avg_likes = 0, ss_top_authors = [(''ann'', 1)]\<rparr> \<and>
   (\<exists>s. get_basic_stats [unliked_comment] = Inr (Some s) \<and> bs_avg_likes s = 0) \<and>
   total_likes [unliked_comment] = 0 \<and>
   \<bar>rat_of_int (total_likes [unliked_comment]) / rat_of_nat (length [unliked_comment])\<bar> < float_limit \<and>
   0 \<le> c_like_count unliked_comment \<and> c_like_count unliked_comment = 0"
proof -
  let ?s = "\<lparr>ss_total_comments = 1, ss_top_level_comments = 1, ss_replies = 0, ss_total_likes = 0,
          ss_avg_likes = 0, ss_top_authors = [(''ann'', 1)]\<rparr>"
  note inst = mean_likes_zero_iff [of "[unliked_comment]" ?s "None"]
  have z: "0 \<le> c_like_count unliked_comment" "c_like_count unliked_comment = 0"
    by (simp_all add: unliked_comment_def)
  have s0: "ss_avg_likes ?s = 0" by simp
  from inst [THEN conjunct1] basic_statistics_unliked s0
  have t: "total_likes [unliked_comment] = 0" by (rule_tac iffD1) (erule mp, assumption+)
  have "\<exists>s. basic_statistics [unliked_comment] = Inr s"
    using basic_statistics_unliked by (rule exI)
  with inst [THEN conjunct2, THEN conjunct2, THEN conjunct1]
  have "[unliked_comment] = [] \<or>
     \<bar>rat_of_int (total_likes [unliked_comment]) / rat_of_nat (length [unliked_comment])\<bar> < float_limit"
    by (rule iffD1)
  then have rng:
    "\<bar>rat_of_int (total_likes [unliked_comment]) / rat_of_nat (length [unliked_comment])\<bar> < float_limit"
    by (elim disjE) simp_all
  have g: "\<exists>s. get_basic_stats [unliked_comment] = Inr (Some s) \<and> bs_avg_likes s = 0"
    unfolding get_basic_stats_unliked by simp
  from basic_statistics_unliked g t rng z show ?thesis by (intro conjI)
qed

text \<open>
  C3 as stated fails from right to left: one comment without likes has mean 0, and the
  collection is not empty.
\<close>

theorem mean_likes_zero_nonempty_counterexample:
  "basic_statistics [unliked_comment] =
     Inr \<lparr>ss_total_comments = 1, ss_top_level_comments = 1, ss_replies = 0, ss_total_likes = 0,
          ss_avg_likes = 0, ss_top_authors = [(''ann'', 1)]\<rparr> \<and>
   [unliked_comment] \<noteq> []"
  using basic_statistics_unliked by simp

subsection \<open>Keywords\<close>

lemma sorted_insort_desc:
  "sorted_wrt (\<lambda>a b. key b \<le> key a) ys \<Longrightarrow> sorted_wrt (\<lambda>a b. key b \<le> key a) (insort_desc key x ys)"
  by (induction ys) (auto simp: set_insort_desc)

lemma sorted_fold_insort_desc:
  "sorted_wrt (\<lambda>a b. key b \<le> key a) acc \<Longrightarrow>
     sorted_wrt (\<lambda>a b. key b \<le> key a) (fold (insort_desc key) xs acc)"
  by (induction xs arbitrary: acc) (auto simp: sorted_insort_desc)

lemma sorted_sort_desc: "sorted_wrt (\<lambda>a b. key b \<le> key a) (sort_desc key xs)"
  by (simp add: sort_desc_def sorted_fold_insort_desc)

lemma most_common_bounded_sorted:
  "length (most_common n cnt) \<le> nat n \<and> sorted_wrt (\<lambda>a b. snd b \<le> snd a) (most_common n cnt)"
  by (simp add: most_common_def sorted_wrt_take sorted_sort_desc)

lemma keys_counter_add: "fst ` set (counter_add x cnt) = insert x (fst ` set cnt)"
proof (induction cnt)
  case Nil
  show ?case by simp
next
  case (Cons p cnt)
  obtain y n where p: "p = (y, n)" by (cases p)
  show ?case
  proof (cases "x = y")
    case True
    then show ?thesis by (simp add: p)
  next
    case False
    then show ?thesis using Cons by (simp add: p insert_commute)
  qed
qed

lemma keys_fold_counter_add: "fst ` set (fold counter_add xs cnt) = set xs \<union> fst ` set cnt"
  by (induction xs arbitrary: cnt) (auto simp: keys_counter_add)

lemma keys_counter: "fst ` set (counter xs) = set xs"
  by (simp add: counter_def keys_fold_counter_add)

lemma keys_most_common: "fst ` set (most_common n (counter xs)) \<subseteq> set xs"
proof -
  have "set (most_common n (counter xs)) \<subseteq> set (counter xs)"
    by (auto simp: most_common_def set_sort_desc dest: in_set_takeD)
  then show ?thesis using keys_counter [of xs] by blast
qed

lemma extract_keywords_bounded_sorted:
  "0 \<le> top_n \<Longrightarrow>
     int (length (extract_keywords min_word_length top_n comments)) \<le> top_n \<and>
     sorted_wrt (\<lambda>a b. snd b \<le> snd a) (extract_keywords min_word_length top_n comments)"
proof -
  assume n: "0 \<le> top_n"
  let ?cnt = "counter (filter (\<lambda>w. w \<notin> set stop_words \<and> length w > min_word_length)
       (findall_words min_word_length (all_text comments)))"
  have e: "extract_keywords min_word_length top_n comments = most_common top_n ?cnt"
    by (simp add: extract_keywords_def Let_def)
  have "length (most_common top_n ?cnt) \<le> nat top_n"
    using most_common_bounded_sorted [of top_n ?cnt] by blast
  with n have "int (length (most_common top_n ?cnt)) \<le> top_n" by linarith
  then show ?thesis using most_common_bounded_sorted [of top_n ?cnt] e by simp
qed

lemma extract_keywords_tokens:
  "(w, k) \<in> set (extract_keywords min_word_length top_n comments) \<Longrightarrow>
     w \<in> set (word_runs (all_text comments)) \<and> w \<notin> set stop_words \<and> min_word_length < length w"
proof -
  assume "(w, k) \<in> set (extract_keywords min_word_length top_n comments)"
  then have "w \<in> fst ` set (extract_keywords min_word_length top_n comments)" by force
  then show ?thesis
    using keys_most_common [of top_n "filter (\<lambda>w. w \<notin> set stop_words \<and> length w > min_word_length)
       (findall_words min_word_length (all_text comments))"]
    by (auto simp: extract_keywords_def Let_def findall_words_def)
qed

text \<open>
  C5. The result of \<open>extract_keywords\<close> has at most \<open>top_n\<close> pairs, in descending order of
  frequency (\<open>extract_keywords_bounded_sorted\<close>). But its filter keeps a word only if it is
  \<^emph>\<open>longer\<close> than \<open>min_word_length\<close> (\<open>extract_keywords_tokens\<close>), although the pattern
  matches words of at least that length: a word of exactly four letters is not counted with
  the default length 4. \<open>sentiment_keywords\<close>, which filters with \<open>len(w) > 3\<close>, counts it.
\<close>

theorem extract_keywords_drops_minimum_length:
  "extract_keywords 4 15 [helm_comment] = [] \<and>
   sentiment_keywords [helm_comment] = [(''helm'', 1)] \<and>
   word_runs (lower (c_text helm_comment)) = [''helm''] \<and>
   length ''helm'' = 4 \<and> ''helm'' \<notin> set stop_words"
  by code_simp

subsection \<open>Audience level\<close>

lemma count_levels_counts:
  "count_levels comments levels =
     \<lparr>beginner = beginner levels + length (filter (\<lambda>c. level_of (lower (c_text c)) = Some Beginner) comments),
      intermediate = intermediate levels + length (filter (\<lambda>c. level_of (lower (c_text c)) = Some Intermediate) comments),
      advanced = advanced levels + length (filter (\<lambda>c. level_of (lower (c_text c)) = Some Advanced) comments)\<rparr>"
proof (induction comments arbitrary: levels)
  case Nil
  show ?case by simp
next
  case (Cons c comments)
  show ?case
  proof (cases "level_of (lower (c_text c))")
    case None
    then show ?thesis by (simp add: Cons)
  next
    case (Some l)
    then show ?thesis by (cases l) (simp_all add: Cons)
  qed
qed

lemma classified_count_split:
  "classified_count comments =
     length (filter (\<lambda>c. level_of (lower (c_text c)) = Some Beginner) comments) +
     length (filter (\<lambda>c. level_of (lower (c_text c)) = Some Intermediate) comments) +
     length (filter (\<lambda>c. level_of (lower (c_text c)) = Some Advanced) comments)"
proof (induction comments)
  case Nil
  show ?case by (simp add: classified_count_def)
next
  case (Cons c comments)
  show ?case
  proof (cases "level_of (lower (c_text c))")
    case None
    then show ?thesis using Cons by (simp add: classified_count_def)
  next
    case (Some l)
    then show ?thesis using Cons by (cases l) (simp_all add: classified_count_def)
  qed
qed

lemma percentages_sum:
  "n = b + i + a \<Longrightarrow> n \<noteq> 0 \<Longrightarrow>
     rat_of_nat b / rat_of_nat n * 100 + rat_of_nat i / rat_of_nat n * 100 +
     rat_of_nat a / rat_of_nat n * 100 = 100"
proof -
  assume t: "n = b + i + a" and nz: "n \<noteq> 0"
  have "rat_of_nat b / rat_of_nat n * 100 + rat_of_nat i / rat_of_nat n * 100 +
     rat_of_nat a / rat_of_nat n * 100 = (rat_of_nat b + rat_of_nat i + rat_of_nat a) / rat_of_nat n * 100"
    by (simp add: add_divide_distrib distrib_right)
  also have "rat_of_nat b + rat_of_nat i + rat_of_nat a = rat_of_nat n" using t by simp
  also have "rat_of_nat n / rat_of_nat n * 100 = 100" using nz by simp
  finally show ?thesis .
qed

text \<open>
  C4 (as amended). A text is assigned to the first tier, in the order beginner, advanced,
  intermediate, one of whose indicators it contains, so a text with a beginner and an
  advanced indicator is a beginner text; every comment is counted in at most one tier, and
  the three counts are the numbers of comments of each tier. For a collection that is not
  empty: if some comment is classified, the three percentages sum to 100 (exactly, in
  rational arithmetic), and if none is, the dominant level is \<open>intermediate\<close> and the
  distribution holds the three zero counts. For the empty collection the result is the
  empty dictionary, which has no dominant level.
\<close>

theorem audience_level_tiers:
  "(any_in beginner_indicators t \<longrightarrow> level_of t = Some Beginner) \<and>
   (\<not> any_in beginner_indicators t \<and> any_in advanced_indicators t \<longrightarrow> level_of t = Some Advanced) \<and>
   (\<not> any_in beginner_indicators t \<and> \<not> any_in advanced_indicators t \<and>
      any_in intermediate_indicators t \<longrightarrow> level_of t = Some Intermediate) \<and>
   (\<not> any_in beginner_indicators t \<and> \<not> any_in advanced_indicators t \<and>
      \<not> any_in intermediate_indicators t \<longrightarrow> level_of t = None) \<and>
   count_levels comments \<lparr>beginner = 0, intermediate = 0, advanced = 0\<rparr> =
     \<lparr>beginner = length (filter (\<lambda>c. level_of (lower (c_text c)) = Some Beginner) comments),
      intermediate = length (filter (\<lambda>c. level_of (lower (c_text c)) = Some Intermediate) comments),
      advanced = length (filter (\<lambda>c. level_of (lower (c_text c)) = Some Advanced) comments)\<rparr> \<and>
   (comments \<noteq> [] \<and> classified_count comments > 0 \<longrightarrow>
      (\<exists>d p. analyze_audience_level comments = Classified d p (classified_count comments) \<and>
         pct_beginner p + pct_intermediate p + pct_advanced p = 100)) \<and>
   (comments \<noteq> [] \<and> classified_count comments = 0 \<longrightarrow>
      analyze_audience_level comments =
        Unclassified Intermediate \<lparr>beginner = 0, intermediate = 0, advanced = 0\<rparr>) \<and>
   (comments = [] \<longrightarrow> analyze_audience_level comments = No_Comments)"
proof -
  let ?b = "length (filter (\<lambda>c. level_of (lower (c_text c)) = Some Beginner) comments)"
  let ?i = "length (filter (\<lambda>c. level_of (lower (c_text c)) = Some Intermediate) comments)"
  let ?a = "length (filter (\<lambda>c. level_of (lower (c_text c)) = Some Advanced) comments)"
  have lv: "level_of t = (if any_in beginner_indicators t then Some Beginner
      else if any_in advanced_indicators t then Some Advanced
      else if any_in intermediate_indicators t then Some Intermediate
      else None)" by (simp add: level_of_def)
  have counts: "count_levels comments \<lparr>beginner = 0, intermediate = 0, advanced = 0\<rparr> =
     \<lparr>beginner = ?b, intermediate = ?i, advanced = ?a\<rparr>"
    by (simp add: count_levels_counts)
  have total: "classified_count comments = ?b + ?i + ?a" by (rule classified_count_split)
  have pos: "comments \<noteq> [] \<and> classified_count comments > 0 \<longrightarrow>
      (\<exists>d p. analyze_audience_level comments = Classified d p (classified_count comments) \<and>
         pct_beginner p + pct_intermediate p + pct_advanced p = 100)"
  proof
    assume h: "comments \<noteq> [] \<and> classified_count comments > 0"
    then have nz: "?b + ?i + ?a \<noteq> 0" using total by simp
    have "rat_of_nat ?b / rat_of_nat (?b + ?i + ?a) * 100 + rat_of_nat ?i / rat_of_nat (?b + ?i + ?a) * 100 +
       rat_of_nat ?a / rat_of_nat (?b + ?i + ?a) * 100 = 100"
      using nz by (intro percentages_sum) simp_all
    then show "\<exists>d p. analyze_audience_level comments = Classified d p (classified_count comments) \<and>
         pct_beginner p + pct_intermediate p + pct_advanced p = 100"
      using h nz total by (simp add: analyze_audience_level_def counts Let_def)
  qed
  have zero: "comments \<noteq> [] \<and> classified_count comments = 0 \<longrightarrow>
      analyze_audience_level comments =
        Unclassified Intermediate \<lparr>beginner = 0, intermediate = 0, advanced = 0\<rparr>"
    using total by (simp add: analyze_audience_level_def counts Let_def)
  have empty: "comments = [] \<longrightarrow> analyze_audience_level comments = No_Comments"
    by (simp add: analyze_audience_level_def)
  from lv counts pos zero empty show ?thesis by simp
qed

lemma level_comments_result:
  "analyze_audience_level level_comments =
     Classified Beginner \<lparr>pct_beginner = 100 / 3, pct_intermediate = 100 / 3, pct_advanced = 100 / 3\<rparr> 3"
  by code_simp

lemma level_comments_count: "classified_count level_comments = 3"
  by code_simp

lemma level_texts:
  "any_in beginner_indicators (lower ''A basic tutorial on architecture'') \<and>
   any_in advanced_indicators (lower ''A basic tutorial on architecture'') \<and>
   \<not> any_in beginner_indicators (lower ''How does it scale?'') \<and>
   any_in advanced_indicators (lower ''How does it scale?'') \<and>
   \<not> any_in beginner_indicators (lower ''We run this in production'') \<and>
   \<not> any_in advanced_indicators (lower ''We run this in production'') \<and>
   any_in intermediate_indicators (lower ''We run this in production'') \<and>
   \<not> any_in beginner_indicators (lower ''helm'') \<and>
   \<not> any_in advanced_indicators (lower ''helm'') \<and>
   \<not> any_in intermediate_indicators (lower ''helm'')"
  by code_simp

lemma helm_unclassified: "classified_count [helm_comment] = 0"
  by code_simp

theorem audience_level_tiers_witness:
  "any_in beginner_indicators (lower ''A basic tutorial on architecture'') \<and>
   any_in advanced_indicators (lower ''A basic tutorial on architecture'') \<and>
   level_of (lower ''A basic tutorial on architecture'') = Some Beginner \<and>
   \<not> any_in beginner_indicators (lower ''How does it scale?'') \<and>
   any_in advanced_indicators (lower ''How does it scale?'') \<and>
   level_of (lower ''How does it scale?'') = Some Advanced \<and>
   \<not> any_in beginner_indicators (lower ''We run this in production'') \<and>
   \<not> any_in advanced_indicators (lower ''We run this in production'') \<and>
   any_in intermediate_indicators (lower ''We run this in production'') \<and>
   level_of (lower ''We run this in production'') = Some Intermediate \<and>
   \<not> any_in beginner_indicators (lower ''helm'') \<and>
   \<not> any_in advanced_indicators (lower ''helm'') \<and>
   \<not> any_in intermediate_indicators (lower ''helm'') \<and>
   level_of (lower ''helm'') = None \<and>
   level_comments \<noteq> [] \<and> classified_count level_comments > 0 \<and>
   (\<exists>d p. analyze_audience_level level_comments = Classified d p (classified_count level_comments) \<and>
      pct_beginner p + pct_intermediate p + pct_advanced p = 100) \<and>
   [helm_comment] \<noteq> [] \<and> classified_count [helm_comment] = 0 \<and>
   analyze_audience_level [helm_comment] =
     Unclassified Intermediate \<lparr>beginner = 0, intermediate = 0, advanced = 0\<rparr> \<and>
   analyze_audience_level [] = No_Comments"
proof -
  have ne: "level_comments \<noteq> []" by (simp add: level_comments_def)
  have pos: "classified_count level_comments > 0" by (simp add: level_comments_count)
  from audience_level_tiers [of "lower ''A basic tutorial on architecture''" level_comments]
    audience_level_tiers [of "lower ''How does it scale?''" "[helm_comment]"]
    audience_level_tiers [of "lower ''We run this in production''" "[]"]
    audience_level_tiers [of "lower ''helm''" "[]"]
    level_texts ne pos helm_unclassified
  show ?thesis by simp
qed

text \<open>
  C4 as stated fails on the empty collection: no comment is classified, and the result has
  no dominant level.
\<close>

theorem audience_level_empty_counterexample:
  "classified_count [] = 0 \<and> analyze_audience_level [] = No_Comments \<and>
   dominant_level (analyze_audience_level []) \<noteq> Some Intermediate"
  by (simp add: classified_count_def analyze_audience_level_def dominant_level_def)

subsection \<open>Engagement patterns\<close>

lemma published_hour_cases:
  "published_hour p c = (case hour_of p c of
      Some h \<Rightarrow> Inr h
    | None \<Rightarrow> (if c_published_at c = None then Inl KeyError else Inl ValueError))"
  by (simp add: published_hour_def hour_of_def split: option.splits)

lemma hourly_distribution_counter:
  "hourly_distribution p comments hours =
     Inr (fold counter_add (List.map_filter (hour_of p) comments) hours)"
proof (induction comments arbitrary: hours)
  case Nil
  show ?case by simp
next
  case (Cons c comments)
  show ?case
    by (cases "hour_of p c") (simp_all add: published_hour_cases Cons)
qed

lemma most_common_empty: "most_common n [] = []"
  by (simp add: most_common_def sort_desc_def)

text \<open>
  C8. Whatever \<open>fromisoformat\<close> accepts: a comment has no hour exactly when its timestamp
  is absent or does not parse; the hourly distribution is the counter of the hours of the
  other comments, so leaving such a comment out does not change it; and both
  \<open>analyze_engagement_patterns\<close> and \<open>engagement_analysis\<close> return, with the peak hours
  taken from that distribution.
\<close>

theorem malformed_timestamp_skipped:
  "(hour_of p c = None \<longleftrightarrow>
      c_published_at c = None \<or> (\<exists>ts. c_published_at c = Some ts \<and> p (replace_Z ts) = None)) \<and>
   hourly_distribution p comments [] = Inr (counter (List.map_filter (hour_of p) comments)) \<and>
   (hour_of p c = None \<longrightarrow>
      hourly_distribution p (before @ c # after) [] = hourly_distribution p (before @ after) []) \<and>
   (comments \<noteq> [] \<longrightarrow>
      (\<exists>r. analyze_engagement_patterns p comments = Inr (Some r) \<and>
           peak_hours r = most_common 3 (counter (List.map_filter (hour_of p) comments)))) \<and>
   (comments \<noteq> [] \<longrightarrow>
      engagement_analysis p comments = Inr (most_common 5 (counter (List.map_filter (hour_of p) comments)))) \<and>
   analyze_engagement_patterns p [] = Inr None \<and>
   engagement_analysis p [] = Inr []"
proof -
  have a: "hour_of p c = None \<longleftrightarrow>
      c_published_at c = None \<or> (\<exists>ts. c_published_at c = Some ts \<and> p (replace_Z ts) = None)"
    by (cases "c_published_at c") (simp_all add: hour_of_def)
  have b: "hourly_distribution p comments [] = Inr (counter (List.map_filter (hour_of p) comments))"
    by (simp add: hourly_distribution_counter counter_def)
  have c: "hour_of p c = None \<longrightarrow>
      hourly_distribution p (before @ c # after) [] = hourly_distribution p (before @ after) []"
    by (simp add: hourly_distribution_counter List.map_filter_def)
  have d: "comments \<noteq> [] \<longrightarrow>
      (\<exists>r. analyze_engagement_patterns p comments = Inr (Some r) \<and>
           peak_hours r = most_common 3 (counter (List.map_filter (hour_of p) comments)))"
    by (simp add: analyze_engagement_patterns_def b bind_err_def Let_def most_common_empty)
  have e: "comments \<noteq> [] \<longrightarrow>
      engagement_analysis p comments = Inr (most_common 5 (counter (List.map_filter (hour_of p) comments)))"
    by (simp add: engagement_analysis_def b bind_err_def most_common_empty)
  have f: "analyze_engagement_patterns p [] = Inr None" "engagement_analysis p [] = Inr []"
    by (simp_all add: analyze_engagement_patterns_def engagement_analysis_def)
  from a b c d e f show ?thesis by blast
qed

lemma timed_peak:
  "analyze_engagement_patterns toy_fromisoformat timed_comments =
     Inr (Some \<lparr>max_likes = 5, median_likes = 1,
       top_comments =
         [\<lparr>tc_author = ''bob'', tc_likes = 5, tc_text_preview = ''second''\<rparr>,
          \<lparr>tc_author = ''cy'', tc_likes = 2, tc_text_preview = ''third''\<rparr>,
          \<lparr>tc_author = ''ann'', tc_likes = 1, tc_text_preview = ''first''\<rparr>,
          \<lparr>tc_author = ''dee'', tc_likes = 0, tc_text_preview = ''fourth''\<rparr>],
       peak_hours = [(9, 1), (17, 1)]\<rparr>)"
  by code_simp

lemma timed_printed: "engagement_analysis toy_fromisoformat timed_comments = Inr [(9, 1), (17, 1)]"
  by code_simp

theorem malformed_timestamp_skipped_witness:
  "hour_of toy_fromisoformat (timed_comments ! 1) = None \<and>
   (\<exists>ts. c_published_at (timed_comments ! 1) = Some ts \<and> toy_fromisoformat (replace_Z ts) = None) \<and>
   hour_of toy_fromisoformat (timed_comments ! 2) = None \<and>
   c_published_at (timed_comments ! 2) = None \<and>
   hourly_distribution toy_fromisoformat ([timed_comments ! 0] @ timed_comments ! 1 # [timed_comments ! 3]) [] =
     hourly_distribution toy_fromisoformat ([timed_comments ! 0] @ [timed_comments ! 3]) [] \<and>
   hourly_distribution toy_fromisoformat ([timed_comments ! 0] @ [timed_comments ! 3]) [] =
     Inr [(9, 1), (17, 1)] \<and>
   timed_comments \<noteq> [] \<and>
   (\<exists>r. analyze_engagement_patterns toy_fromisoformat timed_comments = Inr (Some r) \<and>
        peak_hours r = [(9, 1), (17, 1)]) \<and>
   engagement_analysis toy_fromisoformat timed_comments = Inr [(9, 1), (17, 1)]"
proof -
  have h: "hour_of toy_fromisoformat (timed_comments ! 1) = None"
    "hour_of toy_fromisoformat (timed_comments ! 2) = None" by code_simp+
  have k: "c_published_at (timed_comments ! 1) \<noteq> None" "c_published_at (timed_comments ! 2) = None"
    by (simp_all add: timed_comments_def)
  have ne: "timed_comments \<noteq> []" by (simp add: timed_comments_def)
  have v: "hourly_distribution toy_fromisoformat ([timed_comments ! 0] @ [timed_comments ! 3]) [] =
     Inr [(9, 1), (17, 1)]" by code_simp
  note inst = malformed_timestamp_skipped [of toy_fromisoformat "timed_comments ! 1" timed_comments
      "[timed_comments ! 0]" "[timed_comments ! 3]"]
  from inst h(1) have skip:
    "hourly_distribution toy_fromisoformat ([timed_comments ! 0] @ timed_comments ! 1 # [timed_comments ! 3]) [] =
     hourly_distribution toy_fromisoformat ([timed_comments ! 0] @ [timed_comments ! 3]) []"
    by blast
  from inst h(1) k(1) have ex:
    "\<exists>ts. c_published_at (timed_comments ! 1) = Some ts \<and> toy_fromisoformat (replace_Z ts) = None"
    by blast
  have pk: "\<exists>r. analyze_engagement_patterns toy_fromisoformat timed_comments = Inr (Some r) \<and>
        peak_hours r = [(9, 1), (17, 1)]"
    by (simp add: timed_peak)
  from h k(2) ne v skip ex pk timed_printed show ?thesis by blast
qed

subsection \<open>Future topics\<close>

lemma runs_append_separator:
  "\<not> P sep \<Longrightarrow> runs P cur (xs @ sep # ys) = runs P cur xs @ runs P [] ys"
  by (induction xs arbitrary: cur) auto

lemma word_runs_join:
  "set (word_runs (join '' '' xs)) = (\<Union>x\<in>set xs. set (word_runs x))"
proof (induction "'' ''" xs rule: join.induct)
  case 1
  show ?case by (simp add: word_runs_def)
next
  case (2 p)
  show ?case by simp
next
  case (3 p q ps)
  have "\<not> is_word_char CHR '' ''" by (simp add: is_word_char_def)
  then have "word_runs (p @ CHR '' '' # join '' '' (q # ps)) =
      word_runs p @ word_runs (join '' '' (q # ps))"
    unfolding word_runs_def by (rule runs_append_separator)
  with 3 show ?case by simp
qed

lemma runs_sublist: "w \<in> set (runs P cur s) \<Longrightarrow> sublist w (cur @ s)"
proof (induction s arbitrary: cur)
  case Nil
  then show ?case by (auto split: if_splits)
next
  case (Cons c cs)
  show ?case
  proof (cases "P c")
    case True
    with Cons.prems have "w \<in> set (runs P (cur @ [c]) cs)" by simp
    then have "sublist w ((cur @ [c]) @ cs)" by (rule Cons.IH)
    then show ?thesis by simp
  next
    case False
    with Cons.prems have "w = cur \<or> w \<in> set (runs P [] cs)" by (auto split: if_splits)
    then show ?thesis
    proof
      assume "w = cur"
      then show ?thesis by (simp add: sublist_append_rightI)
    next
      assume "w \<in> set (runs P [] cs)"
      then have "sublist w ([] @ cs)" by (rule Cons.IH)
      then have "sublist w cs" by simp
      then obtain pre suf where "cs = pre @ w @ suf" by (auto simp: sublist_def)
      then have "cur @ c # cs = (cur @ c # pre) @ w @ suf" by simp
      then show ?thesis unfolding sublist_def by blast
    qed
  qed
qed

lemma contains_sublist: "contains sub s = sublist sub s"
  by (induction s) (auto simp: sublist_Cons_right)

lemma container_topics_distinct: "distinct (map fst container_topics)"
  by code_simp

lemma topics_apart: "set (map fst container_topics) \<inter> set (map fst tech_patterns) = {}"
  by code_simp

lemma question_topic_source:
  "s \<in> set (question_topics suggestions q) \<Longrightarrow> sg_based_on_topic s \<in> set (map fst tech_patterns)"
  by (force simp: question_topics_def Let_def List.map_filter_def split: if_splits)

lemma mentioned_is_mentioning:
  assumes "0 < mentions_of topic comments"
  shows "mentioning topic comments \<noteq> []"
proof -
  from assms have "filter (\<lambda>w. w = topic) (word_runs (all_text comments)) \<noteq> []"
    by (simp add: mentions_of_def)
  then have "topic \<in> set (word_runs (all_text comments))"
    by (auto simp: filter_empty_conv)
  then obtain c where c: "c \<in> set comments" "topic \<in> set (word_runs (lower (c_text c)))"
    by (auto simp: all_text_def word_runs_join)
  then have "sublist topic ([] @ lower (c_text c))"
    unfolding word_runs_def by (intro runs_sublist)
  with c(1) show ?thesis by (auto simp: mentioning_def filter_empty_conv)
qed

lemma truediv_value: "truediv a b = Inr q \<Longrightarrow> q = rat_of_int a / rat_of_int b"
  by (auto simp: truediv_def split: if_splits)

lemma abs_sum_bound:
  "xs \<noteq> [] \<Longrightarrow> (\<forall>x\<in>set xs. \<bar>rat_of_int x\<bar> < l) \<Longrightarrow>
     \<bar>rat_of_int (sum_list xs)\<bar> < l * rat_of_nat (length xs)"
proof (induction xs)
  case Nil
  then show ?case by simp
next
  case (Cons x xs)
  show ?case
  proof (cases "xs = []")
    case True
    with Cons.prems show ?thesis by simp
  next
    case False
    with Cons have "\<bar>rat_of_int (sum_list xs)\<bar> < l * rat_of_nat (length xs)" by simp
    moreover from Cons.prems have "\<bar>rat_of_int x\<bar> < l" by simp
    moreover have "\<bar>rat_of_int (sum_list (x # xs))\<bar> \<le> \<bar>rat_of_int x\<bar> + \<bar>rat_of_int (sum_list xs)\<bar>"
      by simp
    ultimately show ?thesis by (simp add: algebra_simps)
  qed
qed

lemma mean_in_range:
  assumes "likes_in_float_range comments" "filter P comments \<noteq> []"
  shows "\<bar>rat_of_int (total_likes (filter P comments)) /
           rat_of_int (int (length (filter P comments)))\<bar> < float_limit"
proof -
  let ?xs = "map c_like_count (filter P comments)"
  from assms(1) have "\<forall>x\<in>set ?xs. \<bar>rat_of_int x\<bar> < float_limit"
    by (auto simp: likes_in_float_range_def list_all_iff)
  moreover from assms(2) have ne: "?xs \<noteq> []" by simp
  ultimately have "\<bar>rat_of_int (sum_list ?xs)\<bar> < float_limit * rat_of_nat (length ?xs)"
    by (intro abs_sum_bound)
  moreover from ne have "0 < rat_of_nat (length ?xs)" by simp
  ultimately have "\<bar>rat_of_int (sum_list ?xs)\<bar> / rat_of_nat (length ?xs) < float_limit"
    by (simp add: pos_divide_less_eq)
  then show ?thesis by (simp add: total_likes_def)
qed

lemma relevant_is_mentioning:
  "filter (\<lambda>c. contains topic (lower (c_text c))) comments = mentioning topic comments"
  by (simp add: mentioning_def contains_sublist)

lemma mentioned_topics_of_set:
  "mentioned_topics_of comments table = Inr topics \<Longrightarrow>
   set topics =
     {topic_entry comments topic titles | topic titles.
        (topic, titles) \<in> set table \<and> 0 < mentions_of topic comments}"
proof (induction table arbitrary: topics)
  case Nil
  then show ?case by simp
next
  case (Cons entry table)
  obtain topic titles where e: "entry = (topic, titles)" by (cases entry)
  show ?case
  proof (cases "0 < mentions_of topic comments")
    case False
    with Cons.prems have "mentioned_topics_of comments table = Inr topics"
      by (simp add: e mentions_of_def)
    then have "set topics = {topic_entry comments topic titles | topic titles.
        (topic, titles) \<in> set table \<and> 0 < mentions_of topic comments}" by (rule Cons.IH)
    with False show ?thesis by (auto simp: e)
  next
    case True
    then have ne: "mentioning topic comments \<noteq> []" by (rule mentioned_is_mentioning)
    from Cons.prems True ne obtain avg rest where
      avg: "truediv (total_likes (mentioning topic comments)) (int (length (mentioning topic comments))) = Inr avg"
      and rest: "mentioned_topics_of comments table = Inr rest"
      and topics: "topics = \<lparr>td_topic = topic, td_mentions = mentions_of topic comments,
                        td_avg_engagement = avg, td_suggestions = titles,
                        td_interest_score = rat_of_nat (mentions_of topic comments) * (1 + avg)\<rparr> # rest"
      by (auto simp: e Let_def relevant_is_mentioning mentions_of_def split: sum.splits)
    from avg have "avg = rat_of_int (sum_list (map c_like_count (mentioning topic comments))) /
        rat_of_nat (length (mentioning topic comments))"
      using truediv_value by (fastforce simp: total_likes_def)
    with topics have t: "topics = topic_entry comments topic titles # rest"
      by (simp add: topic_entry_def)
    from rest have "set rest = {topic_entry comments topic titles | topic titles.
        (topic, titles) \<in> set table \<and> 0 < mentions_of topic comments}" by (rule Cons.IH)
    with True t show ?thesis by (auto simp: e)
  qed
qed

lemma mentioned_topics_of_returns:
  "likes_in_float_range comments \<Longrightarrow> \<exists>topics. mentioned_topics_of comments table = Inr topics"
proof (induction table)
  case Nil
  show ?case by simp
next
  case (Cons entry table)
  obtain topic titles where e: "entry = (topic, titles)" by (cases entry)
  from Cons obtain rest where rest: "mentioned_topics_of comments table = Inr rest" by blast
  show ?case
  proof (cases "0 < mentions_of topic comments")
    case False
    with rest show ?thesis by (simp add: e mentions_of_def)
  next
    case True
    let ?rel = "filter (\<lambda>c. contains topic (lower (c_text c))) comments"
    from True have ne: "?rel \<noteq> []"
      using mentioned_is_mentioning by (simp add: relevant_is_mentioning)
    then have n: "int (length ?rel) \<noteq> 0" by simp
    from Cons.prems ne have "\<bar>rat_of_int (total_likes ?rel) / rat_of_int (int (length ?rel))\<bar> < float_limit"
      by (rule mean_in_range)
    with n have "truediv (total_likes ?rel) (int (length ?rel)) =
        Inr (rat_of_int (total_likes ?rel) / rat_of_int (int (length ?rel)))"
      by (rule truediv_Inr)
    with True ne rest show ?thesis by (simp add: e Let_def mentions_of_def)
  qed
qed

lemma mentioned_topic_unique:
  assumes "mentioned_topics comments = Inr topics" "td \<in> set topics" "td' \<in> set topics"
    "td_topic td = td_topic td'"
  shows "td = td'"
proof -
  note set = mentioned_topics_of_set [OF assms(1) [unfolded mentioned_topics_def]]
  from assms(2) obtain topic titles where a: "td = topic_entry comments topic titles"
    "(topic, titles) \<in> set container_topics"
    by (auto simp: set)
  from assms(3) obtain topic' titles' where b: "td' = topic_entry comments topic' titles'"
    "(topic', titles') \<in> set container_topics"
    by (auto simp: set)
  from assms(4) a b have t: "topic = topic'" by (simp add: topic_entry_def)
  with a(2) b(2) have "titles = titles'"
    using container_topics_distinct by (meson eq_key_imp_eq_value)
  with a b t show ?thesis by simp
qed

lemma video_suggestion_source:
  assumes "s \<in> set (video_suggestions top_n topics)"
  shows "\<exists>td\<in>set topics. sg_based_on_topic s = td_topic td \<and>
           sg_priority s = (if td_interest_score td > 10 then High else Medium)"
proof -
  from assms obtain td where
    td: "td \<in> set (slice_to (top_n div 2) (sort_desc td_interest_score topics))"
      "s \<in> set (topic_suggestions td)"
    by (auto simp: video_suggestions_def)
  from td(1) have "td \<in> set topics"
    using set_slice_to [of "top_n div 2" "sort_desc td_interest_score topics"]
    by (auto simp: set_sort_desc)
  moreover from td(2) have "sg_based_on_topic s = td_topic td \<and>
           sg_priority s = (if td_interest_score td > 10 then High else Medium)"
    by (auto simp: topic_suggestions_def)
  ultimately show ?thesis by blast
qed

lemma suggestion_cases:
  assumes "suggest_future_topics top_n comments = Inr result" "s \<in> set result"
    "mentioned_topics comments = Inr topics"
  shows "s \<in> set (video_suggestions top_n topics) \<or> sg_based_on_topic s \<in> set (map fst tech_patterns)"
proof -
  let ?vs = "video_suggestions top_n topics"
  let ?em = "concat (map (question_topics ?vs) (find_questions 20 comments))"
  from assms(1,3) have "result = slice_to top_n
      (sort_desc (\<lambda>x. (sg_priority x = High, sg_priority x = Emerging, sg_avg_engagement x)) (?vs @ ?em))"
    by (simp add: suggest_future_topics_def bind_err_def Let_def)
  with assms(2) have "s \<in> set (?vs @ ?em)"
    using set_slice_to [of top_n
      "sort_desc (\<lambda>x. (sg_priority x = High, sg_priority x = Emerging, sg_avg_engagement x)) (?vs @ ?em)"]
    by (auto simp: set_sort_desc simp del: set_append)
  then show ?thesis using question_topic_source by auto
qed

text \<open>
  C6. Whenever the topics are computed, every keyword of the topic table with at least one
  mention has a topic, and for every topic: the mentions are the maximal runs of word
  characters in the joined lower-cased texts that equal the keyword; at least one comment
  has the keyword as a contiguous part of its lower-cased text; the average engagement is
  the mean like count of exactly these comments; and the interest score is
  mentions \<open>\<times>\<close> (1 + that mean). Every suggestion in the result that is based on the
  keyword has priority \<open>High\<close> if the interest score exceeds 10, and \<open>Medium\<close> otherwise.
  The topics and the result are computed whenever the like counts are within the float
  range. Five mentions of docker with mean like count 4, beside a comment on something else
  with 100 likes, give the score 25 and the priority \<open>High\<close>.
\<close>

theorem interest_score_and_priority:
  "(mentioned_topics comments = Inr topics \<and> td \<in> set topics \<longrightarrow>
      td_mentions td = mentions_of (td_topic td) comments \<and>
      0 < td_mentions td \<and>
      mentioning (td_topic td) comments \<noteq> [] \<and>
      td_avg_engagement td =
        rat_of_int (sum_list (map c_like_count (mentioning (td_topic td) comments))) /
        rat_of_nat (length (mentioning (td_topic td) comments)) \<and>
      td_interest_score td = rat_of_nat (td_mentions td) * (1 + td_avg_engagement td)) \<and>
   (mentioned_topics comments = Inr topics \<and> (topic, titles) \<in> set container_topics \<and>
      0 < mentions_of topic comments \<longrightarrow>
      (\<exists>td'\<in>set topics. td_topic td' = topic)) \<and>
   (suggest_future_topics top_n comments = Inr result \<and> s \<in> set result \<and>
      mentioned_topics comments = Inr topics \<and> td \<in> set topics \<and>
      sg_based_on_topic s = td_topic td \<longrightarrow>
      sg_priority s = (if td_interest_score td > 10 then High else Medium)) \<and>
   (likes_in_float_range comments \<longrightarrow>
      (\<exists>topics' result'. mentioned_topics comments = Inr topics' \<and>
         suggest_future_topics top_n comments = Inr result'))"
proof -
  have a: "mentioned_topics comments = Inr topics \<and> td \<in> set topics \<longrightarrow>
      td_mentions td = mentions_of (td_topic td) comments \<and>
      0 < td_mentions td \<and>
      mentioning (td_topic td) comments \<noteq> [] \<and>
      td_avg_engagement td =
        rat_of_int (sum_list (map c_like_count (mentioning (td_topic td) comments))) /
        rat_of_nat (length (mentioning (td_topic td) comments)) \<and>
      td_interest_score td = rat_of_nat (td_mentions td) * (1 + td_avg_engagement td)"
  proof
    assume h: "mentioned_topics comments = Inr topics \<and> td \<in> set topics"
    then obtain topic titles where td: "td = topic_entry comments topic titles"
      "0 < mentions_of topic comments"
      using mentioned_topics_of_set [of comments container_topics topics]
      by (auto simp: mentioned_topics_def)
    from td(2) have "mentioning topic comments \<noteq> []" by (rule mentioned_is_mentioning)
    with td show "td_mentions td = mentions_of (td_topic td) comments \<and>
      0 < td_mentions td \<and>
      mentioning (td_topic td) comments \<noteq> [] \<and>
      td_avg_engagement td =
        rat_of_int (sum_list (map c_like_count (mentioning (td_topic td) comments))) /
        rat_of_nat (length (mentioning (td_topic td) comments)) \<and>
      td_interest_score td = rat_of_nat (td_mentions td) * (1 + td_avg_engagement td)"
      by (simp add: topic_entry_def)
  qed
  have b: "mentioned_topics comments = Inr topics \<and> (topic, titles) \<in> set container_topics \<and>
      0 < mentions_of topic comments \<longrightarrow>
      (\<exists>td'\<in>set topics. td_topic td' = topic)"
  proof
    assume h: "mentioned_topics comments = Inr topics \<and> (topic, titles) \<in> set container_topics \<and>
      0 < mentions_of topic comments"
    then have "topic_entry comments topic titles \<in> set topics"
      using mentioned_topics_of_set [of comments container_topics topics]
      by (auto simp: mentioned_topics_def)
    moreover have "td_topic (topic_entry comments topic titles) = topic"
      by (simp add: topic_entry_def)
    ultimately show "\<exists>td'\<in>set topics. td_topic td' = topic" by blast
  qed
  have c: "suggest_future_topics top_n comments = Inr result \<and> s \<in> set result \<and>
      mentioned_topics comments = Inr topics \<and> td \<in> set topics \<and>
      sg_based_on_topic s = td_topic td \<longrightarrow>
      sg_priority s = (if td_interest_score td > 10 then High else Medium)"
  proof
    assume h: "suggest_future_topics top_n comments = Inr result \<and> s \<in> set result \<and>
      mentioned_topics comments = Inr topics \<and> td \<in> set topics \<and>
      sg_based_on_topic s = td_topic td"
    then obtain topic titles where "td = topic_entry comments topic titles"
      "(topic, titles) \<in> set container_topics"
      using mentioned_topics_of_set [of comments container_topics topics]
      by (auto simp: mentioned_topics_def)
    then have "td_topic td \<in> set (map fst container_topics)"
      by (auto simp: topic_entry_def intro: rev_image_eqI)
    with h have "sg_based_on_topic s \<notin> set (map fst tech_patterns)"
      using topics_apart by auto
    with h have "s \<in> set (video_suggestions top_n topics)"
      using suggestion_cases by blast
    then obtain td' where td': "td' \<in> set topics"
      "sg_based_on_topic s = td_topic td'"
      "sg_priority s = (if td_interest_score td' > 10 then High else Medium)"
      using video_suggestion_source by blast
    with h have "td' = td" by (intro mentioned_topic_unique [of comments topics td' td]) simp_all
    with td' show "sg_priority s = (if td_interest_score td > 10 then High else Medium)" by simp
  qed
  have d: "likes_in_float_range comments \<longrightarrow>
      (\<exists>topics' result'. mentioned_topics comments = Inr topics' \<and>
         suggest_future_topics top_n comments = Inr result')"
  proof
    assume "likes_in_float_range comments"
    then obtain topics' where "mentioned_topics comments = Inr topics'"
      using mentioned_topics_of_returns by (auto simp: mentioned_topics_def)
    then show "\<exists>topics' result'. mentioned_topics comments = Inr topics' \<and>
         suggest_future_topics top_n comments = Inr result'"
      by (simp add: suggest_future_topics_def bind_err_def Let_def)
  qed
  from a b c d show ?thesis by blast
qed

lemma docker_mentioned: "mentioned_topics docker_comments = Inr [docker_topic]"
  by code_simp

lemma docker_suggested: "suggest_future_topics 8 docker_comments = Inr docker_suggestions"
  by code_simp

lemma docker_in_table: "(''docker'', td_suggestions docker_topic) \<in> set container_topics"
  by (simp add: container_topics_def docker_topic_def)

lemma docker_figures:
  "mentions_of ''docker'' docker_comments = 5 \<and>
   length (mentioning ''docker'' docker_comments) = 5 \<and>
   sum_list (map c_like_count (mentioning ''docker'' docker_comments)) = 20 \<and>
   length docker_comments = 6 \<and>
   sum_list (map c_like_count docker_comments) = 120 \<and>
   likes_in_float_range docker_comments"
  by code_simp

theorem interest_score_and_priority_witness:
  "mentioned_topics docker_comments = Inr [docker_topic] \<and>
   docker_topic \<in> set [docker_topic] \<and>
   td_mentions docker_topic = 5 \<and>
   mentions_of ''docker'' docker_comments = 5 \<and>
   length (mentioning ''docker'' docker_comments) = 5 \<and>
   sum_list (map c_like_count (mentioning ''docker'' docker_comments)) = 20 \<and>
   length docker_comments = 6 \<and>
   sum_list (map c_like_count docker_comments) = 120 \<and>
   td_avg_engagement docker_topic = 20 / 5 \<and>
   td_interest_score docker_topic = 5 * (1 + 4) \<and>
   td_interest_score docker_topic = 25 \<and>
   (''docker'', td_suggestions docker_topic) \<in> set container_topics \<and>
   (\<exists>td'\<in>set [docker_topic]. td_topic td' = ''docker'') \<and>
   suggest_future_topics 8 docker_comments = Inr docker_suggestions \<and>
   docker_suggestions ! 0 \<in> set docker_suggestions \<and>
   sg_based_on_topic (docker_suggestions ! 0) = td_topic docker_topic \<and>
   sg_priority (docker_suggestions ! 0) = High \<and>
   likes_in_float_range docker_comments"
proof -
  note inst = interest_score_and_priority [of docker_comments "[docker_topic]" docker_topic
      "''docker''" "td_suggestions docker_topic" 8 docker_suggestions "docker_suggestions ! 0"]
  have topic: "td_topic docker_topic = ''docker''" by (simp add: docker_topic_def)
  have m: "docker_topic \<in> set [docker_topic]" by simp
  have s: "docker_suggestions ! 0 \<in> set docker_suggestions"
    by (simp add: docker_suggestions_def)
  have t: "sg_based_on_topic (docker_suggestions ! 0) = td_topic docker_topic"
    by (simp add: docker_suggestions_def docker_topic_def)
  from inst [THEN conjunct1] docker_mentioned m
  have a: "td_mentions docker_topic = mentions_of (td_topic docker_topic) docker_comments \<and>
      0 < td_mentions docker_topic \<and>
      mentioning (td_topic docker_topic) docker_comments \<noteq> [] \<and>
      td_avg_engagement docker_topic =
        rat_of_int (sum_list (map c_like_count (mentioning (td_topic docker_topic) docker_comments))) /
        rat_of_nat (length (mentioning (td_topic docker_topic) docker_comments)) \<and>
      td_interest_score docker_topic =
        rat_of_nat (td_mentions docker_topic) * (1 + td_avg_engagement docker_topic)"
    by blast
  with topic docker_figures have v: "td_mentions docker_topic = 5"
    "td_avg_engagement docker_topic = 20 / 5"
    "td_interest_score docker_topic = 5 * (1 + 4)"
    by simp_all
  then have v25: "td_interest_score docker_topic = 25" by simp
  have pos: "0 < mentions_of ''docker'' docker_comments" using docker_figures by simp
  from inst [THEN conjunct2, THEN conjunct1] docker_mentioned docker_in_table pos
  have b: "\<exists>td'\<in>set [docker_topic]. td_topic td' = ''docker''" by blast
  from inst [THEN conjunct2, THEN conjunct2, THEN conjunct1] docker_suggested s docker_mentioned m t
  have "sg_priority (docker_suggestions ! 0) =
      (if td_interest_score docker_topic > 10 then High else Medium)" by blast
  with v25 have c: "sg_priority (docker_suggestions ! 0) = High" by simp
  from docker_mentioned m v v25 docker_figures docker_in_table b docker_suggested s t c
  show ?thesis by (intro conjI) simp_all
qed

subsection \<open>Video ids\<close>

lemma patterns_same: "scraper_patterns = caption_patterns"
  by (simp add: scraper_patterns_def caption_patterns_def)

lemma plain_id_is_video_id: "length url = 11 \<Longrightarrow> list_all is_id_char url \<Longrightarrow> is_video_id url"
  by (simp add: is_video_id_def)

text \<open>
  C10. The two \<open>extract_video_id\<close> methods return the same id or raise \<open>ValueError\<close> on
  the same inputs, whatever the URL library returns; a string of eleven letters, digits,
  hyphens or underscores is returned unchanged by both.
\<close>

theorem extract_video_id_same:
  "scraper_extract_video_id query_v url = caption_extract_video_id query_v url \<and>
   (length url = 11 \<and> list_all is_id_char url \<longrightarrow>
      scraper_extract_video_id query_v url = Inr url \<and>
      caption_extract_video_id query_v url = Inr url)"
proof -
  have same: "scraper_extract_video_id query_v url = caption_extract_video_id query_v url"
    unfolding scraper_extract_video_id_def caption_extract_video_id_def patterns_same ..
  have plain: "length url = 11 \<and> list_all is_id_char url \<longrightarrow> scraper_extract_video_id query_v url = Inr url"
    by (simp add: scraper_extract_video_id_def plain_id_is_video_id)
  from same plain show ?thesis by simp
qed

lemma sample_id: "length ''dQw4w9WgXcQ'' = 11 \<and> list_all is_id_char ''dQw4w9WgXcQ''"
  by code_simp

lemma sample_urls:
  "scraper_extract_video_id no_query ''https://www.youtube.com/watch?v=dQw4w9WgXcQ&t=3'' = Inr ''dQw4w9WgXcQ'' \<and>
   scraper_extract_video_id no_query ''https://example.com/'' = Inl ValueError"
  by code_simp

theorem extract_video_id_same_witness:
  "length ''dQw4w9WgXcQ'' = 11 \<and> list_all is_id_char ''dQw4w9WgXcQ'' \<and>
   scraper_extract_video_id no_query ''dQw4w9WgXcQ'' = Inr ''dQw4w9WgXcQ'' \<and>
   caption_extract_video_id no_query ''dQw4w9WgXcQ'' = Inr ''dQw4w9WgXcQ'' \<and>
   caption_extract_video_id no_query ''https://www.youtube.com/watch?v=dQw4w9WgXcQ&t=3'' = Inr ''dQw4w9WgXcQ'' \<and>
   caption_extract_video_id no_query ''https://example.com/'' = Inl ValueError"
  using extract_video_id_same [of no_query "''dQw4w9WgXcQ''"]
    extract_video_id_same [of no_query "''https://www.youtube.com/watch?v=dQw4w9WgXcQ&t=3''"]
    extract_video_id_same [of no_query "''https://example.com/''"]
    sample_id sample_urls
  by simp

end
